theory Spec2Isabelle
  imports Complex_Main
begin

section \<open>Values, dictionaries and exceptions\<close>

text \<open>
  The Python code passes fingerprints around as open dictionaries whose values are
  Python floats, strings, lists, numpy scalars and numpy arrays.  The operations of the
  code dispatch on these kinds (\<^verbatim>\<open>isinstance(arr, np.ndarray)\<close>, \<^verbatim>\<open>.tolist()\<close>,
  truthiness), so the model keeps them apart.

  Numbers are finite reals: rounding of single and double precision is not modelled, and
  a field never holds an infinity or a NaN.  NaN does arise inside the code, from a
  division of zero by zero; those places carry it explicitly (\<open>npfloat\<close> below).
\<close>

datatype pyval =
    PyNum real            \<comment> \<open>a Python \<^verbatim>\<open>float\<close> or \<^verbatim>\<open>int\<close>\<close>
  | PyStr string          \<comment> \<open>a Python \<^verbatim>\<open>str\<close>\<close>
  | PyList "real list"    \<comment> \<open>a Python \<^verbatim>\<open>list\<close> of numbers\<close>
  | NpNum real            \<comment> \<open>a numpy scalar such as \<^verbatim>\<open>np.float64\<close>\<close>
  | NdArray "real list"   \<comment> \<open>a one-dimensional \<^verbatim>\<open>np.ndarray\<close>\<close>
  | NdArray0 real         \<comment> \<open>a zero-dimensional \<^verbatim>\<open>np.ndarray\<close>, \<^verbatim>\<open>np.array(2.5)\<close>\<close>
  | NdStr string          \<comment> \<open>a zero-dimensional array of a string, \<^verbatim>\<open>np.array('x')\<close>\<close>

datatype error =
    TypeError | ValueError | AttributeError | IndexError | AssertionError
  | OSError | InterfaceError | NotFittedError | ExtractionError

type_synonym fingerprint = "string \<rightharpoonup> pyval"

text \<open>\<^verbatim>\<open>d.get(key, default)\<close>\<close>

definition dict_get :: "(string \<rightharpoonup> 'v) \<Rightarrow> string \<Rightarrow> 'v \<Rightarrow> 'v" where
  "dict_get d k dflt = (case d k of None \<Rightarrow> dflt | Some v \<Rightarrow> v)"

text \<open>
  The number a value stands for where the code does scalar arithmetic or a comparison
  with a number on it.  A string or a list raises \<^verbatim>\<open>TypeError\<close> there.  A
  one-dimensional array would broadcast and then fail at the truth test of an array; no
  path of the program puts one into a scalar field, and the model counts it as an error
  as well.
\<close>

fun py_scalar :: "pyval \<Rightarrow> real option" where
  "py_scalar (PyNum x) = Some x"
| "py_scalar (NpNum x) = Some x"
| "py_scalar (NdArray0 x) = Some x"
| "py_scalar (PyStr s) = None"
| "py_scalar (PyList xs) = None"
| "py_scalar (NdArray xs) = None"
| "py_scalar (NdStr s) = None"

definition as_number :: "pyval \<Rightarrow> error + real" where
  "as_number v = (case py_scalar v of None \<Rightarrow> Inl TypeError | Some x \<Rightarrow> Inr x)"


section \<open>audio\_fingerprint.py: the fingerprinter\<close>

record fingerprinter =
  sr :: nat
  hop_length :: nat
  n_mfcc :: nat

text \<open>\<^verbatim>\<open>AudioFingerprinter()\<close> with the defaults of \<^verbatim>\<open>__init__\<close>.\<close>

definition default_fingerprinter :: fingerprinter where
  "default_fingerprinter = \<lparr> sr = 22050, hop_length = 512, n_mfcc = 13 \<rparr>"

subsection \<open>\_get\_empty\_fingerprint\<close>

definition empty_fingerprint_items :: "fingerprinter \<Rightarrow> (string \<times> pyval) list" where
  "empty_fingerprint_items self =
    [(''mfcc'', NdArray (replicate (n_mfcc self) 0)),
     (''mfcc_std'', NdArray (replicate (n_mfcc self) 0)),
     (''chroma'', NdArray (replicate 12 0)),
     (''chroma_std'', NdArray (replicate 12 0)),
     (''spectral_centroids'', PyNum 0),
     (''spectral_centroids_std'', PyNum 0),
     (''spectral_rolloff'', PyNum 0),
     (''spectral_rolloff_std'', PyNum 0),
     (''zero_crossing_rate'', PyNum 0),
     (''zero_crossing_rate_std'', PyNum 0),
     (''spectral_bandwidth'', PyNum 0),
     (''spectral_bandwidth_std'', PyNum 0),
     (''tempo'', PyNum 0),
     (''onset_strength'', PyNum 0),
     (''onset_strength_std'', PyNum 0),
     (''harmonic_energy'', PyNum 0),
     (''percussive_energy'', PyNum 0),
     (''harmonic_percussive_ratio'', PyNum 0),
     (''key'', PyStr ''Unknown''),
     (''rms_energy'', PyNum 0),
     (''rms_energy_std'', PyNum 0),
     (''dynamic_range'', PyNum 0),
     (''mel_spectral_mean'', PyNum 0),
     (''mel_spectral_std'', PyNum 0),
     (''spectral_contrast'', NdArray (replicate 7 0)),
     (''spectral_contrast_std'', NdArray (replicate 7 0)),
     (''tonnetz'', NdArray (replicate 6 0)),
     (''tonnetz_std'', NdArray (replicate 6 0)),
     (''energy'', PyNum 0)]"

definition get_empty_fingerprint :: "fingerprinter \<Rightarrow> fingerprint" where
  "get_empty_fingerprint self = map_of (empty_fingerprint_items self)"

subsection \<open>create\_feature\_vector\<close>

definition scalar_features :: "string list" where
  "scalar_features =
    [''spectral_centroids'', ''spectral_centroids_std'',
     ''spectral_rolloff'', ''spectral_rolloff_std'',
     ''zero_crossing_rate'', ''zero_crossing_rate_std'',
     ''spectral_bandwidth'', ''spectral_bandwidth_std'',
     ''tempo'', ''onset_strength'', ''onset_strength_std'',
     ''harmonic_energy'', ''percussive_energy'', ''harmonic_percussive_ratio'',
     ''rms_energy'', ''rms_energy_std'', ''dynamic_range'',
     ''mel_spectral_mean'', ''mel_spectral_std'', ''energy'']"

definition array_features :: "string list" where
  "array_features =
    [''mfcc'', ''mfcc_std'', ''chroma'', ''chroma_std'',
     ''spectral_contrast'', ''spectral_contrast_std'',
     ''tonnetz'', ''tonnetz_std'']"

text \<open>
  What one array feature adds to \<^verbatim>\<open>features\<close>: the branch on \<^verbatim>\<open>isinstance\<close>.
  For an \<^verbatim>\<open>np.ndarray\<close> the code extends by \<^verbatim>\<open>arr.tolist()\<close>; that is a float for a
  zero-dimensional array (\<^verbatim>\<open>extend\<close> raises \<^verbatim>\<open>TypeError\<close>) and a \<^verbatim>\<open>str\<close> for a
  zero-dimensional string array (\<^verbatim>\<open>extend\<close> adds its characters).  A list extends by
  its elements.  Anything else appends \<^verbatim>\<open>0.0\<close>.
\<close>

fun array_entries :: "pyval \<Rightarrow> error + pyval list" where
  "array_entries (NdArray xs) = Inr (map PyNum xs)"
| "array_entries (NdArray0 x) = Inl TypeError"
| "array_entries (NdStr s) = Inr (map (\<lambda>c. PyStr [c]) s)"
| "array_entries (PyList xs) = Inr (map PyNum xs)"
| "array_entries (PyNum x) = Inr [PyNum 0]"
| "array_entries (NpNum x) = Inr [PyNum 0]"
| "array_entries (PyStr s) = Inr [PyNum 0]"

text \<open>The loop \<^verbatim>\<open>for feature in array_features\<close>, with \<^verbatim>\<open>features\<close> as accumulator.\<close>

fun extend_features :: "fingerprint \<Rightarrow> string list \<Rightarrow> pyval list \<Rightarrow> error + pyval list" where
  "extend_features fp [] features = Inr features"
| "extend_features fp (feature # rest) features =
    (case array_entries (dict_get fp feature (PyList [])) of
       Inl e \<Rightarrow> Inl e
     | Inr ys \<Rightarrow> extend_features fp rest (features @ ys))"

text \<open>
  \<^verbatim>\<open>np.array(features)\<close> as a vector of numbers.  With a list or a one-dimensional array
  among the entries numpy raises \<^verbatim>\<open>ValueError\<close> (ragged input); with a string it builds
  an array of strings, which is not a vector of numbers and fails at the cast to
  \<^verbatim>\<open>float32\<close> that every caller applies next.  Both are \<open>ValueError\<close> here.
\<close>

definition np_array :: "pyval list \<Rightarrow> error + real list" where
  "np_array features =
    (case those (map py_scalar features) of
       None \<Rightarrow> Inl ValueError
     | Some v \<Rightarrow> Inr v)"

definition create_feature_vector :: "fingerprint \<Rightarrow> error + real list" where
  "create_feature_vector fp =
    (case extend_features fp array_features
            (map (\<lambda>feature. dict_get fp feature (PyNum 0)) scalar_features) of
       Inl e \<Rightarrow> Inl e
     | Inr features \<Rightarrow> np_array features)"


section \<open>Floating-point results that may not be finite\<close>

text \<open>
  numpy does not raise on a division by zero: it returns an infinity, or NaN for zero
  divided by zero, and every comparison with NaN is false.  The results of such
  computations are \<open>npfloat\<close>s.  Finite values are exact reals; the sign of a zero is
  not modelled.
\<close>

datatype npfloat = Fin real | PosInf | NegInf | NaN

fun np_neg :: "npfloat \<Rightarrow> npfloat" where
  "np_neg (Fin a) = Fin (- a)"
| "np_neg PosInf = NegInf"
| "np_neg NegInf = PosInf"
| "np_neg NaN = NaN"

fun np_add :: "npfloat \<Rightarrow> npfloat \<Rightarrow> npfloat" where
  "np_add (Fin a) (Fin b) = Fin (a + b)"
| "np_add NaN y = NaN"
| "np_add x NaN = NaN"
| "np_add PosInf NegInf = NaN"
| "np_add NegInf PosInf = NaN"
| "np_add PosInf y = PosInf"
| "np_add NegInf y = NegInf"
| "np_add (Fin a) y = y"

definition np_sub :: "npfloat \<Rightarrow> npfloat \<Rightarrow> npfloat" where
  "np_sub x y = np_add x (np_neg y)"

text \<open>The product of an infinity and a finite number, by the sign of the number.\<close>

definition inf_times :: "npfloat \<Rightarrow> real \<Rightarrow> npfloat" where
  "inf_times i b = (if b = 0 then NaN else if 0 < b then i else np_neg i)"

fun np_mul :: "npfloat \<Rightarrow> npfloat \<Rightarrow> npfloat" where
  "np_mul (Fin a) (Fin b) = Fin (a * b)"
| "np_mul NaN y = NaN"
| "np_mul x NaN = NaN"
| "np_mul (Fin a) y = inf_times y a"
| "np_mul x (Fin b) = inf_times x b"
| "np_mul PosInf y = y"
| "np_mul NegInf y = np_neg y"

fun np_div :: "npfloat \<Rightarrow> npfloat \<Rightarrow> npfloat" where
  "np_div (Fin a) (Fin b) =
    (if b \<noteq> 0 then Fin (a / b)
     else if a = 0 then NaN else if 0 < a then PosInf else NegInf)"
| "np_div NaN y = NaN"
| "np_div x NaN = NaN"
| "np_div (Fin a) y = Fin 0"
| "np_div x (Fin b) = (if 0 \<le> b then x else np_neg x)"
| "np_div x y = NaN"

text \<open>\<^verbatim>\<open>x > y\<close>\<close>

fun np_gt :: "npfloat \<Rightarrow> npfloat \<Rightarrow> bool" where
  "np_gt (Fin a) (Fin b) = (b < a)"
| "np_gt NaN y = False"
| "np_gt x NaN = False"
| "np_gt PosInf PosInf = False"
| "np_gt PosInf y = True"
| "np_gt x NegInf = (x \<noteq> NegInf)"
| "np_gt x y = False"

text \<open>
  Python's \<^verbatim>\<open>max(0, x)\<close>: the second argument replaces the first only when it compares
  greater, so \<^verbatim>\<open>max(0, nan)\<close> is \<^verbatim>\<open>0\<close>.
\<close>

definition py_max_zero :: "npfloat \<Rightarrow> npfloat" where
  "py_max_zero x = (if np_gt x (Fin 0) then x else Fin 0)"

definition dot :: "real list \<Rightarrow> real list \<Rightarrow> real" where
  "dot u v = sum_list (map2 (*) u v)"


subsection \<open>estimate\_key\<close>

definition major_profile :: "real list" where
  "major_profile = [6.35, 2.23, 3.48, 2.33, 4.38, 4.09, 2.52, 5.19, 2.39, 3.66, 2.29, 2.88]"

definition minor_profile :: "real list" where
  "minor_profile = [6.33, 2.68, 3.52, 5.38, 2.60, 3.53, 2.54, 4.75, 3.98, 2.69, 3.34, 3.17]"

definition key_names :: "string list" where
  "key_names = [''C'', ''C#'', ''D'', ''D#'', ''E'', ''F'', ''F#'', ''G'', ''G#'', ''A'', ''A#'', ''B'']"

text \<open>\<^verbatim>\<open>np.mean\<close> of one row of the chromagram; of an empty row it is NaN.\<close>

definition np_mean :: "real list \<Rightarrow> npfloat" where
  "np_mean row = np_div (Fin (sum_list row)) (Fin (real (length row)))"

definition np_sum :: "npfloat list \<Rightarrow> npfloat" where
  "np_sum xs = foldl np_add (Fin 0) xs"

text \<open>\<^verbatim>\<open>np.roll(a, i)\<close>: the elements move \<open>i\<close> places to the right, around the end.\<close>

definition np_roll :: "'a list \<Rightarrow> nat \<Rightarrow> 'a list" where
  "np_roll a i =
    (if a = [] then []
     else drop (length a - i mod length a) a @ take (length a - i mod length a) a)"

fun finite_value :: "npfloat \<Rightarrow> real option" where
  "finite_value (Fin a) = Some a"
| "finite_value PosInf = None"
| "finite_value NegInf = None"
| "finite_value NaN = None"

text \<open>\<^verbatim>\<open>np.clip(c, -1, 1)\<close>\<close>

fun np_clip :: "npfloat \<Rightarrow> npfloat" where
  "np_clip (Fin r) = Fin (max (- 1) (min 1 r))"
| "np_clip PosInf = Fin 1"
| "np_clip NegInf = Fin (- 1)"
| "np_clip NaN = NaN"

text \<open>
  \<^verbatim>\<open>np.corrcoef(x, y)[0, 1]\<close> for two vectors: numpy stacks them (\<^verbatim>\<open>ValueError\<close> when
  the lengths differ), takes the covariance matrix with divisor \<open>n - 1\<close>, divides its
  entry by the two standard deviations and clips the result to \<open>[-1, 1]\<close>.  An entry
  that is not finite makes a mean, and with it every deviation product, NaN.
\<close>

definition np_corrcoef :: "npfloat list \<Rightarrow> real list \<Rightarrow> error + npfloat" where
  "np_corrcoef x y =
    (if length x \<noteq> length y then Inl ValueError
     else case those (map finite_value x) of
       None \<Rightarrow> Inr NaN
     | Some xs \<Rightarrow>
        (let n = real (length xs);
             dx = map (\<lambda>a. a - sum_list xs / n) xs;
             dy = map (\<lambda>b. b - sum_list y / n) y;
             cxy = np_div (Fin (dot dx dy)) (Fin (n - 1));
             cxx = np_div (Fin (dot dx dx)) (Fin (n - 1));
             cyy = np_div (Fin (dot dy dy)) (Fin (n - 1))
         in case (cxy, cxx, cyy) of
              (Fin c, Fin vx, Fin vy) \<Rightarrow>
                Inr (np_clip (np_div (np_div (Fin c) (Fin (sqrt vx))) (Fin (sqrt vy))))
            | _ \<Rightarrow> Inr NaN))"

text \<open>
  The loop \<^verbatim>\<open>for i in range(12)\<close>, from \<open>i\<close> on, with the state \<open>(max_corr,
  estimated_key)\<close>.  \<open>todo\<close> is the number of iterations left.
\<close>

fun key_loop :: "npfloat list \<Rightarrow> nat \<Rightarrow> nat \<Rightarrow> npfloat \<times> string \<Rightarrow> error + string" where
  "key_loop chroma_mean i 0 (max_corr, estimated_key) = Inr estimated_key"
| "key_loop chroma_mean i (Suc todo) (max_corr, estimated_key) =
    (case np_corrcoef chroma_mean (np_roll major_profile i) of
       Inl e \<Rightarrow> Inl e
     | Inr major_corr \<Rightarrow>
    (case np_corrcoef chroma_mean (np_roll minor_profile i) of
       Inl e \<Rightarrow> Inl e
     | Inr minor_corr \<Rightarrow>
        (let (max_corr1, key1) =
               (if np_gt major_corr max_corr then (major_corr, key_names ! i @ '' major'')
                else (max_corr, estimated_key));
             (max_corr2, key2) =
               (if np_gt minor_corr max_corr1 then (minor_corr, key_names ! i @ '' minor'')
                else (max_corr1, key1))
         in key_loop chroma_mean (Suc i) todo (max_corr2, key2))))"

text \<open>
  The body of the \<^verbatim>\<open>try\<close>.  \<open>chroma\<close> is the chromagram as the list of its rows, one
  per pitch class, each a list over time.
\<close>

definition estimate_key_body :: "real list list \<Rightarrow> error + string" where
  "estimate_key_body chroma =
    (let chroma_mean = map np_mean chroma;
         total = np_sum chroma_mean;
         normalized = map (\<lambda>m. np_div m total) chroma_mean
     in key_loop normalized 0 12 (Fin (- 1), ''C''))"

definition estimate_key :: "real list list \<Rightarrow> string" where
  "estimate_key chroma =
    (case estimate_key_body chroma of Inl e \<Rightarrow> ''Unknown'' | Inr k \<Rightarrow> k)"

subsection \<open>extract\_fingerprint\<close>



section \<open>The stored form of a fingerprint\<close>

text \<open>
  \<^verbatim>\<open>store_audio_data\<close> writes the fingerprint as JSON text and the similarity engine
  reads it back with \<^verbatim>\<open>json.loads\<close>.  The text is represented by the dictionary it
  encodes: \<^verbatim>\<open>json.loads(json.dumps(d))\<close> gives \<open>d\<close> back for numbers, strings and
  lists of numbers.
\<close>

datatype json = JNum real | JStr string | JList "real list"

type_synonym jdict = "string \<rightharpoonup> json"

text \<open>\<^verbatim>\<open>x.tolist()\<close>: only numpy values have the method.\<close>

fun tolist :: "pyval \<Rightarrow> error + json" where
  "tolist (NdArray xs) = Inr (JList xs)"
| "tolist (NdArray0 x) = Inr (JNum x)"
| "tolist (NpNum x) = Inr (JNum x)"
| "tolist (NdStr s) = Inr (JStr s)"
| "tolist (PyNum x) = Inl AttributeError"
| "tolist (PyStr s) = Inl AttributeError"
| "tolist (PyList xs) = Inl AttributeError"

text \<open>
  What \<^verbatim>\<open>json.dumps\<close> accepts as a value: floats (\<^verbatim>\<open>np.float64\<close> is a subclass of
  \<^verbatim>\<open>float\<close>), strings and lists; an array is not serializable.
\<close>

fun json_of :: "pyval \<Rightarrow> error + json" where
  "json_of (PyNum x) = Inr (JNum x)"
| "json_of (NpNum x) = Inr (JNum x)"
| "json_of (PyStr s) = Inr (JStr s)"
| "json_of (PyList xs) = Inr (JList xs)"
| "json_of (NdArray xs) = Inl TypeError"
| "json_of (NdArray0 x) = Inl TypeError"
| "json_of (NdStr s) = Inl TypeError"

fun py_of_json :: "json \<Rightarrow> pyval" where
  "py_of_json (JNum x) = PyNum x"
| "py_of_json (JStr s) = PyStr s"
| "py_of_json (JList xs) = PyList xs"

text \<open>
  \<^verbatim>\<open>fingerprint_data[f].tolist() if f in fingerprint_data else []\<close>
\<close>

definition tolist_or_empty :: "fingerprint \<Rightarrow> string \<Rightarrow> error + json" where
  "tolist_or_empty fingerprint_data f =
    (case fingerprint_data f of None \<Rightarrow> Inr (JList []) | Some v \<Rightarrow> tolist v)"

text \<open>
  The dictionary literal of \<^verbatim>\<open>store_audio_data\<close> (app.py, lines 249 to 258), its
  entries evaluated in the order written, then serialized.
\<close>

fun dump_entries :: "(string \<times> (error + json)) list \<Rightarrow> jdict \<Rightarrow> error + jdict" where
  "dump_entries [] acc = Inr acc"
| "dump_entries ((k, Inl e) # rest) acc = Inl e"
| "dump_entries ((k, Inr j) # rest) acc = dump_entries rest (acc(k \<mapsto> j))"

definition fingerprint_json :: "fingerprint \<Rightarrow> error + jdict" where
  "fingerprint_json fingerprint_data =
    dump_entries
      [(''mfcc'', tolist_or_empty fingerprint_data ''mfcc''),
       (''chroma'', tolist_or_empty fingerprint_data ''chroma''),
       (''spectral_centroids'', tolist_or_empty fingerprint_data ''spectral_centroids''),
       (''spectral_rolloff'', tolist_or_empty fingerprint_data ''spectral_rolloff''),
       (''zero_crossing_rate'', tolist_or_empty fingerprint_data ''zero_crossing_rate''),
       (''tempo'', json_of (dict_get fingerprint_data ''tempo'' (PyNum 0))),
       (''key'', json_of (dict_get fingerprint_data ''key'' (PyStr ''Unknown''))),
       (''energy'', json_of (dict_get fingerprint_data ''energy'' (PyNum 0)))]
      Map.empty"


section \<open>similarity\_engine.py\<close>

subsection \<open>\_parse\_fingerprint\<close>

text \<open>Truth value of a decoded JSON value.\<close>

fun truthy :: "json \<Rightarrow> bool" where
  "truthy (JNum x) = (x \<noteq> 0)"
| "truthy (JStr s) = (s \<noteq> [])"
| "truthy (JList xs) = (xs \<noteq> [])"

text \<open>\<^verbatim>\<open>np.array(value)\<close>\<close>

fun np_array_of :: "json \<Rightarrow> pyval" where
  "np_array_of (JList xs) = NdArray xs"
| "np_array_of (JNum x) = NdArray0 x"
| "np_array_of (JStr s) = NdStr s"

definition parse_array_features :: "string list" where
  "parse_array_features =
    [''mfcc'', ''chroma'', ''spectral_centroids'', ''spectral_rolloff'', ''zero_crossing_rate'']"

fun parse_arrays :: "jdict \<Rightarrow> string list \<Rightarrow> fingerprint \<Rightarrow> fingerprint" where
  "parse_arrays fingerprint_data [] fingerprint = fingerprint"
| "parse_arrays fingerprint_data (feature # rest) fingerprint =
    parse_arrays fingerprint_data rest
      (case fingerprint_data feature of
         None \<Rightarrow> fingerprint
       | Some v \<Rightarrow> if truthy v then fingerprint(feature \<mapsto> np_array_of v) else fingerprint)"

definition parse_fingerprint :: "jdict \<Rightarrow> fingerprint" where
  "parse_fingerprint fingerprint_data =
    (let fingerprint = parse_arrays fingerprint_data parse_array_features Map.empty;
         fingerprint = fingerprint(''tempo'' \<mapsto>
            (case fingerprint_data ''tempo'' of None \<Rightarrow> PyNum 0 | Some v \<Rightarrow> py_of_json v));
         fingerprint = fingerprint(''energy'' \<mapsto>
            (case fingerprint_data ''energy'' of None \<Rightarrow> PyNum 0 | Some v \<Rightarrow> py_of_json v))
     in fingerprint(''key'' \<mapsto>
            (case fingerprint_data ''key'' of None \<Rightarrow> PyStr ''Unknown'' | Some v \<Rightarrow> py_of_json v)))"


subsection \<open>\_calculate\_detailed\_similarity\<close>

text \<open>
  The argument check of \<^verbatim>\<open>scipy.spatial.distance.cosine\<close>: the input must be
  one-dimensional, otherwise \<^verbatim>\<open>ValueError\<close>.
\<close>

fun as_vector :: "pyval \<Rightarrow> error + real list" where
  "as_vector (NdArray xs) = Inr xs"
| "as_vector (PyList xs) = Inr xs"
| "as_vector (PyNum x) = Inl ValueError"
| "as_vector (NpNum x) = Inl ValueError"
| "as_vector (NdArray0 x) = Inl ValueError"
| "as_vector (PyStr s) = Inl ValueError"
| "as_vector (NdStr s) = Inl ValueError"

text \<open>
  The cosine distance \<open>1 - u\<cdot>v / sqrt ((u\<cdot>u) (v\<cdot>v))\<close>; the dot product of vectors of
  different lengths raises \<^verbatim>\<open>ValueError\<close>.
\<close>

definition cosine :: "pyval \<Rightarrow> pyval \<Rightarrow> error + npfloat" where
  "cosine a b =
    (case as_vector a of Inl e \<Rightarrow> Inl e | Inr u \<Rightarrow>
    (case as_vector b of Inl e \<Rightarrow> Inl e | Inr v \<Rightarrow>
       if length u \<noteq> length v then Inl ValueError
       else Inr (np_sub (Fin 1)
                  (np_div (Fin (dot u v)) (Fin (sqrt (dot u u * dot v v)))))))"

text \<open>
  The channels \<^verbatim>\<open>mfcc\<close> and \<^verbatim>\<open>chroma\<close>: computed only when both fingerprints have the
  field; \<open>None\<close> is "no entry written".
\<close>

definition cosine_similarity :: "string \<Rightarrow> fingerprint \<Rightarrow> fingerprint \<Rightarrow> error + npfloat option" where
  "cosine_similarity feature query_fp target_fp =
    (case (query_fp feature, target_fp feature) of
       (Some a, Some b) \<Rightarrow>
         (case cosine a b of
            Inl e \<Rightarrow> Inl e
          | Inr d \<Rightarrow> Inr (Some (py_max_zero (np_sub (Fin 1) d))))
     | _ \<Rightarrow> Inr None)"

definition tempo_similarity :: "fingerprint \<Rightarrow> fingerprint \<Rightarrow> error + npfloat" where
  "tempo_similarity query_fp target_fp =
    (case as_number (dict_get query_fp ''tempo'' (PyNum 120)) of Inl e \<Rightarrow> Inl e | Inr query_tempo \<Rightarrow>
    (case as_number (dict_get target_fp ''tempo'' (PyNum 120)) of Inl e \<Rightarrow> Inl e | Inr target_tempo \<Rightarrow>
       (let tempo_diff = \<bar>query_tempo - target_tempo\<bar> / max (max query_tempo target_tempo) 1
        in Inr (py_max_zero (Fin (1 - tempo_diff))))))"

text \<open>
  The test \<^verbatim>\<open>query_energy > 0 and target_energy > 0\<close> does not look at the target's
  energy when the query's is not positive.
\<close>

definition energy_similarity :: "fingerprint \<Rightarrow> fingerprint \<Rightarrow> error + npfloat" where
  "energy_similarity query_fp target_fp =
    (case as_number (dict_get query_fp ''energy'' (PyNum 0)) of Inl e \<Rightarrow> Inl e | Inr query_energy \<Rightarrow>
       if query_energy > 0 then
         (case as_number (dict_get target_fp ''energy'' (PyNum 0)) of Inl e \<Rightarrow> Inl e | Inr target_energy \<Rightarrow>
            if target_energy > 0
            then Inr (Fin (min query_energy target_energy / max query_energy target_energy))
            else Inr (Fin 0.5))
       else Inr (Fin 0.5))"

text \<open>
  Equality of two values as the truth test of \<^verbatim>\<open>a == b\<close> sees it.  Numbers compare by
  value, strings and lists with their own kind, and values of different kinds are
  unequal.  What comparing a numpy array gives depends on the numpy version; no path of
  the program stores one under \<^verbatim>\<open>key\<close>, and the model counts it as \<^verbatim>\<open>ValueError\<close>.
\<close>

fun py_eq :: "pyval \<Rightarrow> pyval \<Rightarrow> error + bool" where
  "py_eq (NdArray xs) b = Inl ValueError"
| "py_eq a (NdArray ys) = Inl ValueError"
| "py_eq (NdArray0 x) b = Inl ValueError"
| "py_eq a (NdArray0 y) = Inl ValueError"
| "py_eq (NdStr s) b = Inl ValueError"
| "py_eq a (NdStr t) = Inl ValueError"
| "py_eq (PyStr s) (PyStr t) = Inr (s = t)"
| "py_eq (PyList xs) (PyList ys) = Inr (xs = ys)"
| "py_eq (PyStr s) b = Inr False"
| "py_eq a (PyStr t) = Inr False"
| "py_eq (PyList xs) b = Inr False"
| "py_eq a (PyList ys) = Inr False"
| "py_eq a b = Inr (py_scalar a = py_scalar b)"

definition key_similarity :: "fingerprint \<Rightarrow> fingerprint \<Rightarrow> error + npfloat" where
  "key_similarity query_fp target_fp =
    (let query_key = dict_get query_fp ''key'' (PyStr ''Unknown'');
         target_key = dict_get target_fp ''key'' (PyStr ''Unknown'')
     in case py_eq query_key (PyStr ''Unknown'') of Inl e \<Rightarrow> Inl e | Inr query_unknown \<Rightarrow>
        if query_unknown then Inr (Fin 0.5)
        else (case py_eq target_key (PyStr ''Unknown'') of Inl e \<Rightarrow> Inl e | Inr target_unknown \<Rightarrow>
          if target_unknown then Inr (Fin 0.5)
          else (case py_eq query_key target_key of Inl e \<Rightarrow> Inl e | Inr same \<Rightarrow>
            Inr (Fin (if same then 1.0 else 0.3)))))"

definition weights :: "(string \<times> real) list" where
  "weights = [(''mfcc'', 0.3), (''chroma'', 0.25), (''tempo'', 0.2), (''energy'', 0.15), (''key'', 0.1)]"

text \<open>
  \<^verbatim>\<open>sum(similarities.get(feature, 0) * weight for feature, weight in weights.items())\<close>
\<close>

definition weighted_sum :: "(string \<rightharpoonup> npfloat) \<Rightarrow> npfloat" where
  "weighted_sum similarities =
    foldl np_add (Fin 0)
      (map (\<lambda>(feature, weight). np_mul (dict_get similarities feature (Fin 0)) (Fin weight)) weights)"

text \<open>Writes a channel when there is one.\<close>

definition set_channel ::
  "(string \<rightharpoonup> npfloat) \<Rightarrow> string \<Rightarrow> npfloat option \<Rightarrow> (string \<rightharpoonup> npfloat)" where
  "set_channel similarities feature v =
    (case v of None \<Rightarrow> similarities | Some x \<Rightarrow> similarities(feature \<mapsto> x))"

text \<open>The body of the \<^verbatim>\<open>try\<close>: the first exception ends it.\<close>

definition detailed_similarity_body ::
  "fingerprint \<Rightarrow> fingerprint \<Rightarrow> error + (string \<rightharpoonup> npfloat)" where
  "detailed_similarity_body query_fp target_fp =
    (case cosine_similarity ''mfcc'' query_fp target_fp of Inl e \<Rightarrow> Inl e | Inr mfcc_sim \<Rightarrow>
    (case cosine_similarity ''chroma'' query_fp target_fp of Inl e \<Rightarrow> Inl e | Inr chroma_sim \<Rightarrow>
    (case tempo_similarity query_fp target_fp of Inl e \<Rightarrow> Inl e | Inr tempo_sim \<Rightarrow>
    (case energy_similarity query_fp target_fp of Inl e \<Rightarrow> Inl e | Inr energy_sim \<Rightarrow>
    (case key_similarity query_fp target_fp of Inl e \<Rightarrow> Inl e | Inr key_sim \<Rightarrow>
       (let similarities = set_channel Map.empty ''mfcc'' mfcc_sim;
            similarities = set_channel similarities ''chroma'' chroma_sim;
            similarities = set_channel similarities ''tempo'' (Some tempo_sim);
            similarities = set_channel similarities ''energy'' (Some energy_sim);
            similarities = set_channel similarities ''key'' (Some key_sim)
        in Inr (set_channel similarities ''overall'' (Some (weighted_sum similarities)))))))))"

definition calculate_detailed_similarity ::
  "fingerprint \<Rightarrow> fingerprint \<Rightarrow> (string \<rightharpoonup> npfloat)" where
  "calculate_detailed_similarity query_fp target_fp =
    (case detailed_similarity_body query_fp target_fp of
       Inr similarities \<Rightarrow> similarities
     | Inl e \<Rightarrow> set_channel Map.empty ''overall'' (Some (Fin 0)))"


subsection \<open>The standardizer and the vector index\<close>

text \<open>
  \<^verbatim>\<open>sklearn.preprocessing.StandardScaler\<close>, fitted: the mean of every column and its
  scale, the standard deviation with divisor \<open>n\<close>, or \<open>1\<close> for a constant column.
\<close>

record standard_scaler =
  scaler_mean :: "real list"
  scaler_scale :: "real list"

definition column :: "real list list \<Rightarrow> nat \<Rightarrow> real list" where
  "column X j = map (\<lambda>row. row ! j) X"

definition scaler_fit :: "real list list \<Rightarrow> standard_scaler" where
  "scaler_fit X =
    (let n = real (length X);
         means = map (\<lambda>j. sum_list (column X j) / n) [0..<length (hd X)];
         vars = map (\<lambda>j. sum_list (map (\<lambda>x. (x - means ! j)\<^sup>2) (column X j)) / n)
                    [0..<length (hd X)]
     in \<lparr> scaler_mean = means,
          scaler_scale = map (\<lambda>v. if v = 0 then 1 else sqrt v) vars \<rparr>)"

text \<open>
  \<^verbatim>\<open>scaler.transform\<close> of one row: \<^verbatim>\<open>NotFittedError\<close> before any fit, \<^verbatim>\<open>ValueError\<close>
  when the row has another number of features than the fit saw.
\<close>

definition scaler_transform :: "standard_scaler option \<Rightarrow> real list \<Rightarrow> error + real list" where
  "scaler_transform scaler x =
    (case scaler of
       None \<Rightarrow> Inl NotFittedError
     | Some sc \<Rightarrow>
         if length x \<noteq> length (scaler_mean sc) then Inl ValueError
         else Inr (map (\<lambda>(xj, (m, s)). (xj - m) / s)
                     (zip x (zip (scaler_mean sc) (scaler_scale sc)))))"

text \<open>
  \<^verbatim>\<open>np.array(features)\<close> of a list of vectors: a matrix when all have one length,
  \<^verbatim>\<open>ValueError\<close> otherwise.
\<close>

definition np_matrix :: "real list list \<Rightarrow> error + real list list" where
  "np_matrix features =
    (if list_all (\<lambda>row. length row = length (hd features)) features
     then Inr features else Inl ValueError)"

text \<open>\<^verbatim>\<open>faiss.normalize_L2\<close>: a row of norm zero is left as it is.\<close>

definition normalize_L2 :: "real list \<Rightarrow> real list" where
  "normalize_L2 x = (if dot x x > 0 then map (\<lambda>a. a / sqrt (dot x x)) x else x)"

text \<open>\<^verbatim>\<open>faiss.IndexFlatIP\<close>: the dimension and the stored rows.\<close>

record faiss_index =
  index_d :: nat
  index_rows :: "real list list"

definition FLT_MAX :: real where
  "FLT_MAX = 340282346638528859811704183484516925440"

text \<open>
  \<^verbatim>\<open>index.search(query, k)\<close>: the \<open>k\<close> rows of largest inner product with their
  positions, best first (rows of equal product in the order stored); when the index holds
  fewer than \<open>k\<close> rows the rest of the answer is filled with the position \<open>-1\<close> and the
  lowest single-precision number.  The wrapper asserts \<open>k > 0\<close> and the dimension of
  the query.
\<close>

definition faiss_search :: "faiss_index \<Rightarrow> real list \<Rightarrow> int \<Rightarrow> error + (real \<times> int) list" where
  "faiss_search idx query k =
    (if length query \<noteq> index_d idx \<or> k \<le> 0 then Inl AssertionError
     else
       (let scored = zip (map (dot query) (index_rows idx))
                         (map int [0..<length (index_rows idx)]);
            best = take (nat k) (sort_key (\<lambda>(s, i). - s) scored)
        in Inr (best @ replicate (nat k - length best) (- FLT_MAX, - 1))))"

subsection \<open>The engine\<close>

record song =
  song_id :: nat
  song_file_path :: string
  song_title :: string
  song_artist :: string
  song_album :: string
  song_tempo :: pyval
  song_key :: pyval
  song_energy :: pyval
  song_fingerprint :: fingerprint

text \<open>
  A row of the table \<^verbatim>\<open>songs\<close>, with the columns the program writes.  The three
  columns \<^verbatim>\<open>tempo\<close>, \<^verbatim>\<open>key_signature\<close> and \<^verbatim>\<open>energy\<close> hold what was bound to them; the
  conversions of SQLite's column affinity are not modelled.
\<close>

record song_row =
  row_id :: nat
  row_file_path :: string
  row_title :: string
  row_artist :: string
  row_album :: string
  row_duration :: real
  row_file_hash :: string
  row_fingerprint_data :: jdict
  row_tempo :: pyval
  row_key_signature :: pyval
  row_energy :: pyval
  row_updated_at :: string

record similarity_engine =
  scaler :: "standard_scaler option"
  index :: "faiss_index option"
  feature_dim :: "nat option"
  indexed_songs :: "song list"

text \<open>The state \<^verbatim>\<open>__init__\<close> sets before \<^verbatim>\<open>_initialize_index\<close> runs.\<close>

definition new_engine :: similarity_engine where
  "new_engine = \<lparr> scaler = None, index = None, feature_dim = None, indexed_songs = [] \<rparr>"

definition song_of_row :: "song_row \<Rightarrow> fingerprint \<Rightarrow> song" where
  "song_of_row r fingerprint =
    \<lparr> song_id = row_id r, song_file_path = row_file_path r, song_title = row_title r,
      song_artist = row_artist r, song_album = row_album r, song_tempo = row_tempo r,
      song_key = row_key_signature r, song_energy = row_energy r,
      song_fingerprint = fingerprint \<rparr>"

text \<open>
  The loop of \<^verbatim>\<open>_build_faiss_index\<close> over the rows, with \<^verbatim>\<open>features\<close> and
  \<^verbatim>\<open>self.indexed_songs\<close> as accumulators: a row whose vector cannot be made is skipped.
\<close>

fun collect_songs ::
  "song_row list \<Rightarrow> real list list \<times> song list \<Rightarrow> real list list \<times> song list" where
  "collect_songs [] acc = acc"
| "collect_songs (r # rest) (features, songs) =
    (let fingerprint = parse_fingerprint (row_fingerprint_data r)
     in case create_feature_vector fingerprint of
          Inl e \<Rightarrow> collect_songs rest (features, songs)
        | Inr feature_vector \<Rightarrow>
            collect_songs rest
              (features @ [feature_vector], songs @ [song_of_row r fingerprint]))"

text \<open>
  \<^verbatim>\<open>_build_faiss_index\<close>.  \<^verbatim>\<open>self.indexed_songs\<close> is replaced before anything can
  fail; when the vectors do not form a matrix the exception leaves the standardizer and
  the index as they were, and so does an empty list of vectors.
\<close>

definition build_faiss_index :: "similarity_engine \<Rightarrow> song_row list \<Rightarrow> similarity_engine" where
  "build_faiss_index self rows =
    (let (features, songs) = collect_songs rows ([], []);
         self = self\<lparr> indexed_songs := songs \<rparr>
     in if features = [] then self
        else (case np_matrix features of
          Inl e \<Rightarrow> self
        | Inr X \<Rightarrow>
            (let sc = scaler_fit X;
                 scaled = map (\<lambda>row. map (\<lambda>(xj, (m, s)). (xj - m) / s)
                                  (zip row (zip (scaler_mean sc) (scaler_scale sc)))) X
             in self\<lparr> scaler := Some sc,
                      feature_dim := Some (length (hd X)),
                      index := Some \<lparr> index_d = length (hd X),
                                      index_rows = map normalize_L2 scaled \<rparr> \<rparr>)))"

text \<open>\<^verbatim>\<open>_initialize_index\<close> on the rows \<^verbatim>\<open>_load_all_songs\<close> returns.\<close>

definition initialize_index :: "song_row list \<Rightarrow> similarity_engine" where
  "initialize_index rows = (if rows = [] then new_engine else build_faiss_index new_engine rows)"

text \<open>
  \<^verbatim>\<open>add_song_to_index\<close>; \<open>stored\<close> are the rows \<^verbatim>\<open>_load_all_songs\<close> would return.
\<close>

definition add_song_to_index ::
  "song_row list \<Rightarrow> similarity_engine \<Rightarrow> song_row \<Rightarrow> similarity_engine" where
  "add_song_to_index stored self song_data =
    (let fingerprint = parse_fingerprint (row_fingerprint_data song_data)
     in case create_feature_vector fingerprint of
          Inl e \<Rightarrow> self
        | Inr feature_vector \<Rightarrow>
            (let self = self\<lparr> indexed_songs :=
                               indexed_songs self @ [song_of_row song_data fingerprint] \<rparr>
             in if length (indexed_songs self) mod 100 = 0
                then build_faiss_index self stored
                else self))"

subsection \<open>search\_local\<close>

record search_result =
  res_title :: string
  res_artist :: string
  res_album :: string
  res_file_path :: string
  res_similarity :: real
  res_detailed_similarity :: "string \<rightharpoonup> npfloat"
  res_tempo :: pyval
  res_key :: pyval
  res_energy :: pyval
  res_rank :: nat

text \<open>\<^verbatim>\<open>xs[i]\<close>: a negative index counts from the end.\<close>

definition py_index :: "'a list \<Rightarrow> int \<Rightarrow> error + 'a" where
  "py_index xs i =
    (let j = (if i < 0 then int (length xs) + i else i)
     in if 0 \<le> j \<and> j < int (length xs) then Inr (xs ! nat j) else Inl IndexError)"

text \<open>The loop over the hits; \<open>i\<close> is the position \<^verbatim>\<open>enumerate\<close> gives.\<close>

fun collect_results ::
  "song list \<Rightarrow> fingerprint \<Rightarrow> real \<Rightarrow> nat \<Rightarrow> (real \<times> int) list \<Rightarrow> search_result list
   \<Rightarrow> error + search_result list" where
  "collect_results songs query_fingerprint threshold i [] results = Inr results"
| "collect_results songs query_fingerprint threshold i ((similarity, idx) # rest) results =
    (if similarity \<ge> threshold then
       (case py_index songs idx of
          Inl e \<Rightarrow> Inl e
        | Inr s \<Rightarrow>
            collect_results songs query_fingerprint threshold (Suc i) rest
              (results @
                [\<lparr> res_title = song_title s, res_artist = song_artist s,
                   res_album = song_album s, res_file_path = song_file_path s,
                   res_similarity = similarity,
                   res_detailed_similarity =
                     calculate_detailed_similarity query_fingerprint (song_fingerprint s),
                   res_tempo = song_tempo s, res_key = song_key s,
                   res_energy = song_energy s, res_rank = i + 1 \<rparr>]))
     else collect_results songs query_fingerprint threshold (Suc i) rest results)"

text \<open>The body of the \<^verbatim>\<open>try\<close> of \<^verbatim>\<open>search_local\<close>.\<close>

definition search_local_body ::
  "similarity_engine \<Rightarrow> fingerprint \<Rightarrow> int \<Rightarrow> real \<Rightarrow> error + search_result list" where
  "search_local_body self query_fingerprint max_results threshold =
    (case index self of
       None \<Rightarrow> Inr []
     | Some idx \<Rightarrow>
        if indexed_songs self = [] then Inr []
        else
         (case create_feature_vector query_fingerprint of Inl e \<Rightarrow> Inl e | Inr query_vector \<Rightarrow>
         (case scaler_transform (scaler self) query_vector of Inl e \<Rightarrow> Inl e | Inr scaled \<Rightarrow>
         (case faiss_search idx (normalize_L2 scaled)
                 (min (max_results * 2) (int (length (indexed_songs self)))) of
            Inl e \<Rightarrow> Inl e
          | Inr hits \<Rightarrow>
         (case collect_results (indexed_songs self) query_fingerprint threshold 0 hits [] of
            Inl e \<Rightarrow> Inl e
          | Inr results \<Rightarrow>
              Inr (take (nat max_results) (sort_key (\<lambda>r. - res_similarity r) results)))))))"

definition search_local ::
  "similarity_engine \<Rightarrow> fingerprint \<Rightarrow> int \<Rightarrow> real \<Rightarrow> search_result list" where
  "search_local self query_fingerprint max_results threshold =
    (case search_local_body self query_fingerprint max_results threshold of
       Inr results \<Rightarrow> results
     | Inl e \<Rightarrow> [])"


section \<open>app.py: the store and ingest\<close>














section \<open>Shapes of fingerprints used in the statements\<close>

text \<open>A scalar field that is missing or holds a number, and the number it contributes.\<close>

fun scalar_or_missing :: "pyval option \<Rightarrow> bool" where
  "scalar_or_missing None = True"
| "scalar_or_missing (Some v) = (py_scalar v \<noteq> None)"

fun scalar_value :: "pyval option \<Rightarrow> real" where
  "scalar_value None = 0"
| "scalar_value (Some v) = (case py_scalar v of None \<Rightarrow> 0 | Some x \<Rightarrow> x)"

text \<open>An array field that is missing or holds an array or a list, and its entries.\<close>

fun array_or_missing :: "pyval option \<Rightarrow> bool" where
  "array_or_missing None = True"
| "array_or_missing (Some (NdArray xs)) = True"
| "array_or_missing (Some (PyList xs)) = True"
| "array_or_missing (Some v) = False"

fun array_value :: "pyval option \<Rightarrow> real list" where
  "array_value (Some (NdArray xs)) = xs"
| "array_value (Some (PyList xs)) = xs"
| "array_value v = []"

text \<open>The lengths the data model declares for the eight array features, in their order.\<close>

definition declared_lengths :: "nat list" where
  "declared_lengths = [13, 13, 12, 12, 7, 7, 6, 6]"


text \<open>A field that holds an array or a list.\<close>

fun is_vector :: "pyval option \<Rightarrow> bool" where
  "is_vector (Some (NdArray xs)) = True"
| "is_vector (Some (PyList xs)) = True"
| "is_vector v = False"

text \<open>A \<^verbatim>\<open>key\<close> field that is missing or holds a string.\<close>

fun string_or_missing :: "pyval option \<Rightarrow> bool" where
  "string_or_missing None = True"
| "string_or_missing (Some (PyStr s)) = True"
| "string_or_missing (Some v) = False"

text \<open>A channel value that is a finite number between \<open>0\<close> and \<open>1\<close>.\<close>

fun in_unit :: "npfloat \<Rightarrow> bool" where
  "in_unit (Fin r) = (0 \<le> r \<and> r \<le> 1)"
| "in_unit PosInf = False"
| "in_unit NegInf = False"
| "in_unit NaN = False"


text \<open>
  Serialize-then-parse: the form \<^verbatim>\<open>store_audio_data\<close> writes, read back by
  \<^verbatim>\<open>_parse_fingerprint\<close>.
\<close>

definition store_then_parse :: "fingerprint \<Rightarrow> error + fingerprint" where
  "store_then_parse fp =
    (case fingerprint_json fp of Inl e \<Rightarrow> Inl e | Inr j \<Rightarrow> Inr (parse_fingerprint j))"


text \<open>The eight names of the stored form.\<close>

definition stored_names :: "string list" where
  "stored_names =
    [''mfcc'', ''chroma'', ''spectral_centroids'', ''spectral_rolloff'',
     ''zero_crossing_rate'', ''tempo'', ''key'', ''energy'']"


section \<open>Sample data used in the witnesses\<close>

text \<open>
  A fingerprint of the shape a successful run of \<^verbatim>\<open>extract_fingerprint\<close> returns: the
  eight arrays with their lengths, numpy scalars for the statistics, Python floats for
  \<^verbatim>\<open>tempo\<close> and \<^verbatim>\<open>energy\<close> (the code applies \<^verbatim>\<open>float\<close> to both) and a string for
  the key.
\<close>

definition sample_extraction :: fingerprint where
  "sample_extraction = map_of
    [(''mfcc'', NdArray (replicate 13 1)),
     (''mfcc_std'', NdArray (replicate 13 2)),
     (''chroma'', NdArray (replicate 12 3)),
     (''chroma_std'', NdArray (replicate 12 1)),
     (''spectral_centroids'', NpNum 1500),
     (''spectral_centroids_std'', NpNum 200),
     (''spectral_rolloff'', NpNum 3000),
     (''spectral_rolloff_std'', NpNum 400),
     (''zero_crossing_rate'', NpNum 0),
     (''zero_crossing_rate_std'', NpNum 0),
     (''spectral_bandwidth'', NpNum 1200),
     (''spectral_bandwidth_std'', NpNum 100),
     (''tempo'', PyNum 120),
     (''onset_strength'', NpNum 1),
     (''onset_strength_std'', NpNum 1),
     (''harmonic_energy'', NpNum 10),
     (''percussive_energy'', NpNum 5),
     (''harmonic_percussive_ratio'', NpNum 2),
     (''key'', PyStr ''C major''),
     (''rms_energy'', NpNum 1),
     (''rms_energy_std'', NpNum 1),
     (''dynamic_range'', NpNum 1),
     (''mel_spectral_mean'', NpNum (- 40)),
     (''mel_spectral_std'', NpNum 10),
     (''spectral_contrast'', NdArray (replicate 7 20)),
     (''spectral_contrast_std'', NdArray (replicate 7 5)),
     (''tonnetz'', NdArray (replicate 6 0)),
     (''tonnetz_std'', NdArray (replicate 6 1)),
     (''energy'', PyNum 2)]"



text \<open>The stored form of the sample fingerprint, and the row written for it.\<close>

definition sample_json :: jdict where
  "sample_json =
    [''mfcc'' \<mapsto> JList (replicate 13 1), ''chroma'' \<mapsto> JList (replicate 12 3),
     ''spectral_centroids'' \<mapsto> JNum 1500, ''spectral_rolloff'' \<mapsto> JNum 3000,
     ''zero_crossing_rate'' \<mapsto> JNum 0, ''tempo'' \<mapsto> JNum 120,
     ''key'' \<mapsto> JStr ''C major'', ''energy'' \<mapsto> JNum 2]"

definition sample_row :: "nat \<Rightarrow> string \<Rightarrow> string \<Rightarrow> string \<Rightarrow> song_row" where
  "sample_row n file_path file_hash now =
    \<lparr> row_id = n, row_file_path = file_path, row_title = ''Unknown'',
      row_artist = ''Unknown'', row_album = ''Unknown'', row_duration = 0,
      row_file_hash = file_hash, row_fingerprint_data = sample_json,
      row_tempo = PyNum 120, row_key_signature = PyStr ''C major'', row_energy = PyNum 2,
      row_updated_at = now \<rparr>"



text \<open>
  An engine whose standardizer and index have dimension \<open>d\<close>, with a song for every
  row of the index.
\<close>

definition index_ready :: "nat \<Rightarrow> similarity_engine \<Rightarrow> bool" where
  "index_ready d self =
    (case (scaler self, index self) of
       (Some sc, Some idx) \<Rightarrow>
          length (scaler_mean sc) = d \<and> length (scaler_scale sc) = d \<and> index_d idx = d
          \<and> length (index_rows idx) \<le> length (indexed_songs self)
          \<and> indexed_songs self \<noteq> []
     | _ \<Rightarrow> False)"


section \<open>Properties of the feature vector\<close>

lemma those_append:
  "those (xs @ ys) = (case those xs of None \<Rightarrow> None | Some a \<Rightarrow> map_option ((@) a) (those ys))"
  by (induction xs) (cases "those ys"; auto split: option.splits)+

lemma those_PyNum: "those (map py_scalar (map PyNum xs)) = Some xs"
  by (induction xs) auto

lemma array_entries_ok:
  "array_or_missing (fp f) \<Longrightarrow>
   array_entries (dict_get fp f (PyList [])) = Inr (map PyNum (array_value (fp f)))"
  by (cases "fp f" rule: array_or_missing.cases) (auto simp: dict_get_def)

lemma extend_features_ok:
  "\<forall>f\<in>set fs. array_or_missing (fp f) \<Longrightarrow>
   extend_features fp fs acc = Inr (acc @ map PyNum (concat (map (\<lambda>f. array_value (fp f)) fs)))"
  by (induction fs arbitrary: acc) (auto simp: array_entries_ok)

lemma scalar_entry_ok:
  "scalar_or_missing (fp f) \<Longrightarrow>
   py_scalar (dict_get fp f (PyNum 0)) = Some (scalar_value (fp f))"
  by (cases "fp f") (auto simp: dict_get_def)

lemma scalars_ok:
  "\<forall>f\<in>set fs. scalar_or_missing (fp f) \<Longrightarrow>
   those (map py_scalar (map (\<lambda>f. dict_get fp f (PyNum 0)) fs)) = Some (map (\<lambda>f. scalar_value (fp f)) fs)"
  by (induction fs) (auto simp: scalar_entry_ok)

lemma create_feature_vector_ok:
  assumes "\<forall>f\<in>set scalar_features. scalar_or_missing (fp f)"
    and "\<forall>f\<in>set array_features. array_or_missing (fp f)"
  shows "create_feature_vector fp =
     Inr (map (\<lambda>f. scalar_value (fp f)) scalar_features @
          concat (map (\<lambda>f. array_value (fp f)) array_features))"
  unfolding create_feature_vector_def
  by (simp add: extend_features_ok[OF assms(2)] np_array_def those_append
        scalars_ok[OF assms(1)] those_PyNum del: map_map)

lemma create_feature_vector_maps:
  assumes "list_all scalar_or_missing (map fp scalar_features)"
    and "list_all array_or_missing (map fp array_features)"
  shows "create_feature_vector fp =
     Inr (map scalar_value (map fp scalar_features) @
          concat (map array_value (map fp array_features)))"
proof -
  have "\<forall>f\<in>set scalar_features. scalar_or_missing (fp f)"
    using assms(1) by (simp add: list_all_iff)
  moreover have "\<forall>f\<in>set array_features. array_or_missing (fp f)"
    using assms(2) by (simp add: list_all_iff)
  ultimately show ?thesis
    by (simp add: create_feature_vector_ok comp_def)
qed

lemma empty_fingerprint_scalars:
  "map (get_empty_fingerprint self) scalar_features = replicate 20 (Some (PyNum 0))"
  by code_simp

lemma empty_fingerprint_arrays:
  "map (get_empty_fingerprint self) array_features =
    [Some (NdArray (replicate (n_mfcc self) 0)), Some (NdArray (replicate (n_mfcc self) 0)),
     Some (NdArray (replicate 12 0)), Some (NdArray (replicate 12 0)),
     Some (NdArray (replicate 7 0)), Some (NdArray (replicate 7 0)),
     Some (NdArray (replicate 6 0)), Some (NdArray (replicate 6 0))]"
  by code_simp


lemma replicate_append_same: "replicate m x @ replicate n x = replicate (m + n) x"
  by (simp add: replicate_add)

lemma scalar_value_zeros: "map scalar_value (replicate n (Some (PyNum 0))) = replicate n 0"
  by simp

lemma list_all_replicate: "list_all P (replicate n x) = (n = 0 \<or> P x)"
  by (induction n) auto



text \<open>
  C1, as amended.  For a fingerprint whose scalar features are numbers or missing and
  whose array features are arrays, lists or missing, \<open>create_feature_vector\<close> returns
  the twenty scalars in the frozen order, a missing one as \<open>0\<close>, followed by the entries
  of the array features in the frozen order.  A missing array feature contributes no
  entry: the dimension is twenty plus the lengths of the arrays present, which is \<open>96\<close>
  when the eight arrays have their declared lengths.
\<close>

theorem create_feature_vector_dimension:
  assumes "\<forall>f\<in>set scalar_features. scalar_or_missing (fp f)"
    and "\<forall>f\<in>set array_features. array_or_missing (fp f)"
  shows "\<exists>v. create_feature_vector fp = Inr v
     \<and> v = map (\<lambda>f. scalar_value (fp f)) scalar_features
           @ concat (map (\<lambda>f. array_value (fp f)) array_features)
     \<and> length v = 20 + sum_list (map (\<lambda>f. length (array_value (fp f))) array_features)
     \<and> (map (\<lambda>f. length (array_value (fp f))) array_features = declared_lengths
          \<longrightarrow> length v = 96)"
proof -
  have len: "length scalar_features = 20"
    by (simp add: scalar_features_def)
  show ?thesis
    by (simp add: create_feature_vector_ok[OF assms] len length_concat comp_def declared_lengths_def)
qed

theorem create_feature_vector_dimension_witness:
  "list_all scalar_or_missing (map (get_empty_fingerprint default_fingerprinter) scalar_features)
   \<and> list_all array_or_missing (map (get_empty_fingerprint default_fingerprinter) array_features)
   \<and> map (\<lambda>f. length (array_value (get_empty_fingerprint default_fingerprinter f))) array_features
       = declared_lengths
   \<and> (\<exists>v. create_feature_vector (get_empty_fingerprint default_fingerprinter) = Inr v \<and> length v = 96)"
proof -
  let ?E = "get_empty_fingerprint default_fingerprinter"
  have ls: "list_all scalar_or_missing (map ?E scalar_features)"
    unfolding empty_fingerprint_scalars list_all_replicate by simp
  then have s: "\<forall>f\<in>set scalar_features. scalar_or_missing (?E f)"
    by (simp add: list_all_iff)
  have la: "list_all array_or_missing (map ?E array_features)"
    unfolding empty_fingerprint_arrays by simp
  then have a: "\<forall>f\<in>set array_features. array_or_missing (?E f)"
    by (simp add: list_all_iff)
  have "map (\<lambda>f. length (array_value (?E f))) array_features
         = map (length \<circ> array_value) (map ?E array_features)"
    by simp
  also have "\<dots> = declared_lengths"
    unfolding empty_fingerprint_arrays by (simp add: declared_lengths_def default_fingerprinter_def)
  finally have d: "map (\<lambda>f. length (array_value (?E f))) array_features = declared_lengths" .
  from create_feature_vector_dimension[OF s a] d ls la show ?thesis
    by blast
qed

text \<open>
  The claim as stated fails: the zero fingerprint without its \<^verbatim>\<open>mfcc\<close> field gives a
  vector of 83 entries, not 96.
\<close>

theorem create_feature_vector_missing_array_counterexample:
  "create_feature_vector ((get_empty_fingerprint default_fingerprinter)(''mfcc'' := None))
     = Inr (replicate 83 0)
   \<and> length (replicate 83 (0::real)) \<noteq> 96"
proof -
  let ?E = "get_empty_fingerprint default_fingerprinter"
  let ?fp = "?E(''mfcc'' := None)"
  have s: "map ?fp scalar_features = replicate 20 (Some (PyNum 0))"
    unfolding empty_fingerprint_scalars[of default_fingerprinter, symmetric]
    by (simp add: scalar_features_def)
  have "map ?fp array_features = None # tl (map ?E array_features)"
    by (simp add: array_features_def)
  then have a: "map ?fp array_features =
     [None, Some (NdArray (replicate 13 0)),
     Some (NdArray (replicate 12 0)), Some (NdArray (replicate 12 0)),
     Some (NdArray (replicate 7 0)), Some (NdArray (replicate 7 0)),
     Some (NdArray (replicate 6 0)), Some (NdArray (replicate 6 0))]"
    unfolding empty_fingerprint_arrays by (simp add: default_fingerprinter_def)
  have sm: "list_all scalar_or_missing (map ?fp scalar_features)"
    unfolding s list_all_replicate by simp
  have am: "list_all array_or_missing (map ?fp array_features)"
    unfolding a by simp
  have "create_feature_vector ?fp =
      Inr (replicate 20 0 @ replicate 13 0 @ replicate 12 0
           @ replicate 12 0 @ replicate 7 0 @ replicate 7 0 @ replicate 6 0 @ replicate 6 0)"
    unfolding create_feature_vector_maps[OF sm am] s a scalar_value_zeros by simp
  also have "\<dots> = Inr (replicate 83 0)"
    unfolding replicate_append_same by simp
  finally show ?thesis by simp
qed


section \<open>Properties of the scorer\<close>

subsection \<open>The cosine channel\<close>

lemma dot_Nil [simp]: "dot [] v = 0" "dot u [] = 0"
  by (simp_all add: dot_def)

lemma dot_Cons [simp]: "dot (a # u) (b # v) = a * b + dot u v"
  by (simp add: dot_def)

lemma dot_self_nonneg: "0 \<le> dot u u"
  by (induction u) auto

lemma cauchy_schwarz_step:
  fixes a b s p q :: real
  assumes "s\<^sup>2 \<le> p * q" "0 \<le> p" "0 \<le> q"
  shows "(a * b + s)\<^sup>2 \<le> (a * a + p) * (b * b + q)"
proof -
  have "(2 * (a * b * s))\<^sup>2 = 4 * (a\<^sup>2 * b\<^sup>2) * s\<^sup>2"
    by (simp add: power2_eq_square)
  also have "\<dots> \<le> 4 * (a\<^sup>2 * b\<^sup>2) * (p * q)"
    using assms(1) by (intro mult_left_mono) simp_all
  also have "\<dots> = 4 * ((a\<^sup>2 * q) * (b\<^sup>2 * p))"
    by simp
  also have "\<dots> \<le> (a\<^sup>2 * q + b\<^sup>2 * p)\<^sup>2"
  proof -
    have "0 \<le> (a\<^sup>2 * q - b\<^sup>2 * p)\<^sup>2" by simp
    then show ?thesis by (simp add: power2_eq_square algebra_simps)
  qed
  finally have "(2 * (a * b * s))\<^sup>2 \<le> (a\<^sup>2 * q + b\<^sup>2 * p)\<^sup>2" .
  moreover have "0 \<le> a\<^sup>2 * q + b\<^sup>2 * p"
    using assms(2,3) by simp
  ultimately have "2 * (a * b * s) \<le> a\<^sup>2 * q + b\<^sup>2 * p"
    using abs_le_square_iff[of "2 * (a * b * s)" "a\<^sup>2 * q + b\<^sup>2 * p"] by linarith
  moreover have "(a * b + s)\<^sup>2 = a\<^sup>2 * b\<^sup>2 + 2 * (a * b * s) + s\<^sup>2"
    by (simp add: power2_eq_square algebra_simps)
  moreover have "(a * a + p) * (b * b + q) = a\<^sup>2 * b\<^sup>2 + (a\<^sup>2 * q + b\<^sup>2 * p) + p * q"
    by (simp add: power2_eq_square algebra_simps)
  ultimately show ?thesis
    using assms(1) by linarith
qed

lemma cauchy_schwarz:
  "length u = length v \<Longrightarrow> (dot u v)\<^sup>2 \<le> dot u u * dot v v"
proof (induction u v rule: list_induct2)
  case Nil
  then show ?case by simp
next
  case (Cons a u b v)
  then show ?case
    using cauchy_schwarz_step[of "dot u v" "dot u u" "dot v v" a b]
    by (simp add: dot_self_nonneg)
qed

lemma abs_dot_le_sqrt:
  assumes "length u = length v"
  shows "\<bar>dot u v\<bar> \<le> sqrt (dot u u * dot v v)"
proof -
  have "sqrt ((dot u v)\<^sup>2) \<le> sqrt (dot u u * dot v v)"
    using cauchy_schwarz[OF assms] by (simp only: real_sqrt_le_iff)
  then show ?thesis by simp
qed

lemma ratio_bounds:
  fixes x n :: real
  assumes "0 < n" "\<bar>x\<bar> \<le> n"
  shows "- 1 \<le> x / n \<and> x / n \<le> 1"
proof -
  from assms have "- n \<le> x" "x \<le> n" by linarith+
  with assms(1) show ?thesis
    by (simp add: pos_le_divide_eq pos_divide_le_eq)
qed

lemma py_max_zero_Fin: "py_max_zero (Fin r) = Fin (max 0 r)"
  by (simp add: py_max_zero_def max_def)

lemma py_max_zero_NaN: "py_max_zero NaN = Fin 0"
  by (simp add: py_max_zero_def)

text \<open>
  The distance is NaN when a vector has norm zero, and otherwise a number between \<open>0\<close>
  and \<open>2\<close>: the channel is between \<open>0\<close> and \<open>1\<close> in both cases.
\<close>

lemma cosine_channel_in_unit:
  assumes "cosine a b = Inr d"
  shows "in_unit (py_max_zero (np_sub (Fin 1) d))"
proof -
  from assms obtain u v where uv: "as_vector a = Inr u" "as_vector b = Inr v"
      "length u = length v"
      and d: "d = np_sub (Fin 1) (np_div (Fin (dot u v)) (Fin (sqrt (dot u u * dot v v))))"
    by (auto simp: cosine_def split: sum.splits if_splits)
  let ?n = "sqrt (dot u u * dot v v)"
  show ?thesis
  proof (cases "?n = 0")
    case True
    with abs_dot_le_sqrt[OF uv(3)] have "dot u v = 0" by simp
    with True d show ?thesis
      by (simp add: np_sub_def py_max_zero_def)
  next
    case False
    have "0 \<le> dot u u * dot v v"
      by (simp add: dot_self_nonneg)
    then have "0 \<le> ?n" by simp
    with False have pos: "0 < ?n" by linarith
    have "- 1 \<le> dot u v / ?n" "dot u v / ?n \<le> 1"
      using ratio_bounds[OF pos abs_dot_le_sqrt[OF uv(3)]] by simp_all
    with False d show ?thesis
      by (simp add: np_sub_def py_max_zero_Fin)
  qed
qed

lemma cosine_similarity_in_unit:
  "cosine_similarity feature query_fp target_fp = Inr (Some x) \<Longrightarrow> in_unit x"
  by (auto simp: cosine_similarity_def cosine_channel_in_unit split: option.splits sum.splits)


subsection \<open>The other channels\<close>

lemma tempo_value:
  fixes a b :: real
  shows "py_max_zero (Fin (1 - \<bar>a - b\<bar> / max (max a b) 1))
          = Fin (max 0 (1 - \<bar>a - b\<bar> / max (max a b) 1))
       \<and> 0 \<le> \<bar>a - b\<bar> / max (max a b) 1"
  by (simp add: py_max_zero_Fin)

lemma tempo_similarity_in_unit:
  assumes "tempo_similarity query_fp target_fp = Inr x"
  shows "in_unit x"
proof -
  from assms obtain a b where x: "x = py_max_zero (Fin (1 - \<bar>a - b\<bar> / max (max a b) 1))"
    by (auto simp: tempo_similarity_def Let_def split: sum.splits)
  have "0 \<le> \<bar>a - b\<bar> / max (max a b) 1"
    by simp
  then show ?thesis
    unfolding x py_max_zero_Fin by simp
qed

lemma energy_ratio_bounds:
  fixes a b :: real
  assumes "0 < a" "0 < b"
  shows "0 \<le> min a b / max a b \<and> min a b / max a b \<le> 1"
proof -
  have "0 < max a b" using assms by simp
  moreover have "0 \<le> min a b" using assms by simp
  moreover have "min a b \<le> max a b" by simp
  ultimately show ?thesis
    by (simp add: pos_divide_le_eq)
qed

lemma energy_similarity_in_unit:
  assumes "energy_similarity query_fp target_fp = Inr x"
  shows "in_unit x"
  using assms energy_ratio_bounds
  by (auto simp: energy_similarity_def split: sum.splits if_splits)

lemma key_similarity_in_unit:
  assumes "key_similarity query_fp target_fp = Inr x"
  shows "in_unit x"
  using assms
  by (auto simp: key_similarity_def Let_def split: sum.splits if_splits)

subsection \<open>The dictionary returned\<close>

lemma in_unit_cases: "in_unit x \<Longrightarrow> \<exists>r. x = Fin r \<and> 0 \<le> r \<and> r \<le> 1"
  by (cases x) auto

lemma weighted_sum_in_unit:
  assumes "in_unit m" "in_unit c" "in_unit tm" "in_unit e" "in_unit k"
  shows "in_unit (foldl np_add (Fin 0)
           [np_mul m (Fin 0.3), np_mul c (Fin 0.25), np_mul tm (Fin 0.2),
            np_mul e (Fin 0.15), np_mul k (Fin 0.1)])"
proof -
  from assms obtain rm rc rt re rk where
    v: "m = Fin rm" "c = Fin rc" "tm = Fin rt" "e = Fin re" "k = Fin rk"
    and b: "0 \<le> rm" "rm \<le> 1" "0 \<le> rc" "rc \<le> 1" "0 \<le> rt" "rt \<le> 1"
           "0 \<le> re" "re \<le> 1" "0 \<le> rk" "rk \<le> 1"
    by (meson in_unit_cases)
  show ?thesis
    unfolding v using b by simp
qed

text \<open>The value a channel has for the weighted sum: \<open>0\<close> when it was not written.\<close>

lemma detailed_similarity_body_result:
  assumes "detailed_similarity_body query_fp target_fp = Inr sims"
  obtains mfcc_sim chroma_sim tempo_sim energy_sim key_sim where
    "cosine_similarity ''mfcc'' query_fp target_fp = Inr mfcc_sim"
    "cosine_similarity ''chroma'' query_fp target_fp = Inr chroma_sim"
    "tempo_similarity query_fp target_fp = Inr tempo_sim"
    "energy_similarity query_fp target_fp = Inr energy_sim"
    "key_similarity query_fp target_fp = Inr key_sim"
    "sims ''mfcc'' = mfcc_sim" "sims ''chroma'' = chroma_sim"
    "sims ''tempo'' = Some tempo_sim" "sims ''energy'' = Some energy_sim"
    "sims ''key'' = Some key_sim"
    "sims ''overall'' = Some (foldl np_add (Fin 0)
           [np_mul (case mfcc_sim of None \<Rightarrow> Fin 0 | Some x \<Rightarrow> x) (Fin 0.3),
            np_mul (case chroma_sim of None \<Rightarrow> Fin 0 | Some x \<Rightarrow> x) (Fin 0.25),
            np_mul tempo_sim (Fin 0.2), np_mul energy_sim (Fin 0.15), np_mul key_sim (Fin 0.1)])"
    "dom sims \<subseteq> {''mfcc'', ''chroma'', ''tempo'', ''energy'', ''key'', ''overall''}"
proof -
  from assms obtain ms cs tm e k where c:
    "cosine_similarity ''mfcc'' query_fp target_fp = Inr ms"
    "cosine_similarity ''chroma'' query_fp target_fp = Inr cs"
    "tempo_similarity query_fp target_fp = Inr tm"
    "energy_similarity query_fp target_fp = Inr e"
    "key_similarity query_fp target_fp = Inr k"
    by (auto simp: detailed_similarity_body_def split: sum.splits)
  have sims: "sims =
      set_channel
        (set_channel (set_channel (set_channel (set_channel (set_channel Map.empty
           ''mfcc'' ms) ''chroma'' cs) ''tempo'' (Some tm)) ''energy'' (Some e)) ''key'' (Some k))
        ''overall''
        (Some (weighted_sum
          (set_channel (set_channel (set_channel (set_channel (set_channel Map.empty
           ''mfcc'' ms) ''chroma'' cs) ''tempo'' (Some tm)) ''energy'' (Some e)) ''key'' (Some k))))"
    using assms by (simp add: detailed_similarity_body_def c Let_def)
  show thesis
  proof (rule that[OF c])
    show "sims ''mfcc'' = ms" "sims ''chroma'' = cs"
      unfolding sims by (cases ms; cases cs; simp add: set_channel_def Let_def)+
    show "sims ''tempo'' = Some tm" "sims ''energy'' = Some e" "sims ''key'' = Some k"
      unfolding sims by (cases ms; cases cs; simp add: set_channel_def Let_def)+
    show "sims ''overall'' = Some (foldl np_add (Fin 0)
           [np_mul (case ms of None \<Rightarrow> Fin 0 | Some x \<Rightarrow> x) (Fin 0.3),
            np_mul (case cs of None \<Rightarrow> Fin 0 | Some x \<Rightarrow> x) (Fin 0.25),
            np_mul tm (Fin 0.2), np_mul e (Fin 0.15), np_mul k (Fin 0.1)])"
      unfolding sims
      by (cases ms; cases cs;
          simp add: set_channel_def Let_def weighted_sum_def weights_def dict_get_def)
    show "dom sims \<subseteq> {''mfcc'', ''chroma'', ''tempo'', ''energy'', ''key'', ''overall''}"
      unfolding sims by (cases ms; cases cs; simp add: set_channel_def Let_def; blast)
  qed
qed


lemma calculate_detailed_similarity_in_unit:
  assumes "calculate_detailed_similarity query_fp target_fp name = Some v"
  shows "in_unit v"
proof (cases "detailed_similarity_body query_fp target_fp")
  case (Inl e)
  with assms show ?thesis
    by (auto simp: calculate_detailed_similarity_def set_channel_def split: if_splits)
next
  case (Inr sims)
  with assms have v: "sims name = Some v"
    by (simp add: calculate_detailed_similarity_def)
  from Inr show ?thesis
  proof (rule detailed_similarity_body_result)
    fix ms cs tm e k
    assume c: "cosine_similarity ''mfcc'' query_fp target_fp = Inr ms"
      "cosine_similarity ''chroma'' query_fp target_fp = Inr cs"
      "tempo_similarity query_fp target_fp = Inr tm"
      "energy_similarity query_fp target_fp = Inr e"
      "key_similarity query_fp target_fp = Inr k"
    assume l: "sims ''mfcc'' = ms" "sims ''chroma'' = cs"
      "sims ''tempo'' = Some tm" "sims ''energy'' = Some e" "sims ''key'' = Some k"
    assume ov: "sims ''overall'' = Some (foldl np_add (Fin 0)
           [np_mul (case ms of None \<Rightarrow> Fin 0 | Some x \<Rightarrow> x) (Fin 0.3),
            np_mul (case cs of None \<Rightarrow> Fin 0 | Some x \<Rightarrow> x) (Fin 0.25),
            np_mul tm (Fin 0.2), np_mul e (Fin 0.15), np_mul k (Fin 0.1)])"
    assume d: "dom sims \<subseteq> {''mfcc'', ''chroma'', ''tempo'', ''energy'', ''key'', ''overall''}"
    have um: "in_unit (case ms of None \<Rightarrow> Fin 0 | Some x \<Rightarrow> x)"
      using cosine_similarity_in_unit[of "''mfcc''" query_fp target_fp] c(1)
      by (cases ms) simp_all
    have uc: "in_unit (case cs of None \<Rightarrow> Fin 0 | Some x \<Rightarrow> x)"
      using cosine_similarity_in_unit[of "''chroma''" query_fp target_fp] c(2)
      by (cases cs) simp_all
    have ut: "in_unit tm" using c(3) by (rule tempo_similarity_in_unit)
    have ue: "in_unit e" using c(4) by (rule energy_similarity_in_unit)
    have uk: "in_unit k" using c(5) by (rule key_similarity_in_unit)
    from v have "name \<in> dom sims"
      by (rule domI)
    with d have "name \<in> {''mfcc'', ''chroma'', ''tempo'', ''energy'', ''key'', ''overall''}"
      by (rule subsetD)
    then have "name = ''mfcc'' \<or> name = ''chroma'' \<or> name = ''tempo''
      \<or> name = ''energy'' \<or> name = ''key'' \<or> name = ''overall''"
      by (simp only: insert_iff empty_iff simp_thms)
    then consider "name = ''mfcc''" | "name = ''chroma''" | "name = ''tempo''"
      | "name = ''energy''" | "name = ''key''" | "name = ''overall''"
      by (elim disjE) (rule that, assumption)+
    then show "in_unit v"
    proof cases
      case 1
      with v l(1) um show ?thesis by (cases ms) simp_all
    next
      case 2
      with v l(2) uc show ?thesis by (cases cs) simp_all
    next
      case 3
      with v l(3) ut show ?thesis by simp
    next
      case 4
      with v l(4) ue show ?thesis by simp
    next
      case 5
      with v l(5) uk show ?thesis by simp
    next
      case 6
      with v ov weighted_sum_in_unit[OF um uc ut ue uk] show ?thesis by simp
    qed
  qed
qed

lemma cosine_similarity_present:
  assumes "is_vector (query_fp feature)" "is_vector (target_fp feature)"
    and "length (array_value (query_fp feature)) = length (array_value (target_fp feature))"
  shows "\<exists>x. cosine_similarity feature query_fp target_fp = Inr (Some x)"
proof -
  from assms(1) obtain u where u: "query_fp feature = Some (NdArray u) \<or> query_fp feature = Some (PyList u)"
    by (cases "query_fp feature" rule: is_vector.cases) auto
  from assms(2) obtain w where w: "target_fp feature = Some (NdArray w) \<or> target_fp feature = Some (PyList w)"
    by (cases "target_fp feature" rule: is_vector.cases) auto
  from u w assms(3) show ?thesis
    by (auto simp: cosine_similarity_def cosine_def)
qed

lemma as_number_scalar_or_missing:
  "scalar_or_missing (fp name) \<Longrightarrow> \<exists>x. as_number (dict_get fp name (PyNum d)) = Inr x"
  by (cases "fp name") (auto simp: dict_get_def as_number_def)

lemma tempo_similarity_present:
  assumes "scalar_or_missing (query_fp ''tempo'')" "scalar_or_missing (target_fp ''tempo'')"
  shows "\<exists>x. tempo_similarity query_fp target_fp = Inr x"
  using as_number_scalar_or_missing[of query_fp "''tempo''" 120, OF assms(1)]
        as_number_scalar_or_missing[of target_fp "''tempo''" 120, OF assms(2)]
  by (auto simp: tempo_similarity_def Let_def)

lemma energy_similarity_present:
  assumes "scalar_or_missing (query_fp ''energy'')" "scalar_or_missing (target_fp ''energy'')"
  shows "\<exists>x. energy_similarity query_fp target_fp = Inr x"
  using as_number_scalar_or_missing[of query_fp "''energy''" 0, OF assms(1)]
        as_number_scalar_or_missing[of target_fp "''energy''" 0, OF assms(2)]
  by (auto simp: energy_similarity_def)

lemma key_of_string_or_missing:
  "string_or_missing (fp ''key'') \<Longrightarrow> \<exists>s. dict_get fp ''key'' (PyStr ''Unknown'') = PyStr s"
  by (cases "fp ''key''" rule: string_or_missing.cases) (auto simp: dict_get_def)

lemma key_similarity_present:
  assumes "string_or_missing (query_fp ''key'')" "string_or_missing (target_fp ''key'')"
  shows "\<exists>x. key_similarity query_fp target_fp = Inr x"
  using key_of_string_or_missing[of query_fp, OF assms(1)]
        key_of_string_or_missing[of target_fp, OF assms(2)]
  by (auto simp: key_similarity_def Let_def)

lemma all_six_channels:
  assumes "is_vector (query_fp ''mfcc'')" "is_vector (target_fp ''mfcc'')"
    and "length (array_value (query_fp ''mfcc'')) = length (array_value (target_fp ''mfcc''))"
    and "is_vector (query_fp ''chroma'')" "is_vector (target_fp ''chroma'')"
    and "length (array_value (query_fp ''chroma'')) = length (array_value (target_fp ''chroma''))"
    and "scalar_or_missing (query_fp ''tempo'')" "scalar_or_missing (target_fp ''tempo'')"
    and "scalar_or_missing (query_fp ''energy'')" "scalar_or_missing (target_fp ''energy'')"
    and "string_or_missing (query_fp ''key'')" "string_or_missing (target_fp ''key'')"
  shows "dom (calculate_detailed_similarity query_fp target_fp)
           = {''mfcc'', ''chroma'', ''tempo'', ''energy'', ''key'', ''overall''}
       \<and> (\<forall>name v. calculate_detailed_similarity query_fp target_fp name = Some v \<longrightarrow> in_unit v)"
proof -
  obtain m where m: "cosine_similarity ''mfcc'' query_fp target_fp = Inr (Some m)"
    using cosine_similarity_present[of query_fp "''mfcc''" target_fp, OF assms(1-3)] by blast
  obtain c where c: "cosine_similarity ''chroma'' query_fp target_fp = Inr (Some c)"
    using cosine_similarity_present[of query_fp "''chroma''" target_fp, OF assms(4-6)] by blast
  obtain tm where tm: "tempo_similarity query_fp target_fp = Inr tm"
    using tempo_similarity_present[of query_fp target_fp, OF assms(7,8)] by blast
  obtain e where e: "energy_similarity query_fp target_fp = Inr e"
    using energy_similarity_present[of query_fp target_fp, OF assms(9,10)] by blast
  obtain k where k: "key_similarity query_fp target_fp = Inr k"
    using key_similarity_present[of query_fp target_fp, OF assms(11,12)] by blast
  obtain sims where body: "detailed_similarity_body query_fp target_fp = Inr sims"
    by (simp add: detailed_similarity_body_def m c tm e k Let_def)
  have calc: "calculate_detailed_similarity query_fp target_fp = sims"
    by (simp add: calculate_detailed_similarity_def body)
  from body have d: "dom sims = {''mfcc'', ''chroma'', ''tempo'', ''energy'', ''key'', ''overall''}"
  proof (rule detailed_similarity_body_result)
    fix ms cs tm' e' k'
    assume "cosine_similarity ''mfcc'' query_fp target_fp = Inr ms"
      "cosine_similarity ''chroma'' query_fp target_fp = Inr cs"
    with m c have ms: "ms = Some m" "cs = Some c" by simp_all
    assume "sims ''mfcc'' = ms" "sims ''chroma'' = cs"
      "sims ''tempo'' = Some tm'" "sims ''energy'' = Some e'" "sims ''key'' = Some k'"
      "sims ''overall'' = Some (foldl np_add (Fin 0)
           [np_mul (case ms of None \<Rightarrow> Fin 0 | Some x \<Rightarrow> x) (Fin 0.3),
            np_mul (case cs of None \<Rightarrow> Fin 0 | Some x \<Rightarrow> x) (Fin 0.25),
            np_mul tm' (Fin 0.2), np_mul e' (Fin 0.15), np_mul k' (Fin 0.1)])"
    with ms have "{''mfcc'', ''chroma'', ''tempo'', ''energy'', ''key'', ''overall''} \<subseteq> dom sims"
      by (simp add: dom_def)
    moreover assume "dom sims \<subseteq> {''mfcc'', ''chroma'', ''tempo'', ''energy'', ''key'', ''overall''}"
    ultimately show ?thesis by (rule subset_antisym[rotated])
  qed
  show ?thesis
  proof (intro conjI allI impI)
    show "dom (calculate_detailed_similarity query_fp target_fp)
           = {''mfcc'', ''chroma'', ''tempo'', ''energy'', ''key'', ''overall''}"
      unfolding calc by (rule d)
  next
    fix name v
    assume "calculate_detailed_similarity query_fp target_fp name = Some v"
    then show "in_unit v"
      by (rule calculate_detailed_similarity_in_unit)
  qed
qed


lemma overall_always_returned:
  "\<exists>v. calculate_detailed_similarity query_fp target_fp ''overall'' = Some v"
proof (cases "detailed_similarity_body query_fp target_fp")
  case (Inl e)
  then show ?thesis
    by (simp add: calculate_detailed_similarity_def set_channel_def)
next
  case (Inr sims)
  then have "\<exists>v. sims ''overall'' = Some v"
    by (elim detailed_similarity_body_result) simp
  with Inr show ?thesis
    by (simp add: calculate_detailed_similarity_def)
qed

lemma cosine_channel_omitted:
  assumes "query_fp feature = None \<or> target_fp feature = None"
  shows "cosine_similarity feature query_fp target_fp = Inr None"
  using assms by (auto simp: cosine_similarity_def split: option.splits)

lemma missing_field_no_channel:
  assumes "query_fp feature = None \<or> target_fp feature = None"
    and "feature = ''mfcc'' \<or> feature = ''chroma''"
  shows "calculate_detailed_similarity query_fp target_fp feature = None"
proof (cases "detailed_similarity_body query_fp target_fp")
  case (Inl e)
  with assms(2) show ?thesis
    by (auto simp: calculate_detailed_similarity_def set_channel_def)
next
  case (Inr sims)
  from Inr have "sims feature = None"
  proof (rule detailed_similarity_body_result)
    fix ms cs
    assume "cosine_similarity ''mfcc'' query_fp target_fp = Inr ms"
      "cosine_similarity ''chroma'' query_fp target_fp = Inr cs"
      "sims ''mfcc'' = ms" "sims ''chroma'' = cs"
    with assms cosine_channel_omitted[of query_fp feature target_fp, OF assms(1)]
    show ?thesis
      by auto
  qed
  with Inr show ?thesis
    by (simp add: calculate_detailed_similarity_def)
qed

text \<open>
  C6, as amended.  The scorer always returns the channel \<^verbatim>\<open>overall\<close>, and every channel
  it returns is a number between \<open>0\<close> and \<open>1\<close>.  It returns exactly the six channels
  when both fingerprints hold \<^verbatim>\<open>mfcc\<close> and \<^verbatim>\<open>chroma\<close> vectors of matching lengths,
  numbers (or nothing) as \<^verbatim>\<open>tempo\<close> and \<^verbatim>\<open>energy\<close> and a string (or nothing) as
  \<^verbatim>\<open>key\<close>.  The channel \<^verbatim>\<open>mfcc\<close> or \<^verbatim>\<open>chroma\<close> is left out when one of the
  fingerprints lacks the field, and when the computation of a channel raises the result
  is \<open>overall = 0\<close> alone.
\<close>

theorem calculate_detailed_similarity_channels:
  "(\<forall>name v. calculate_detailed_similarity query_fp target_fp name = Some v \<longrightarrow> in_unit v)
   \<and> (\<exists>v. calculate_detailed_similarity query_fp target_fp ''overall'' = Some v)
   \<and> (is_vector (query_fp ''mfcc'') \<and> is_vector (target_fp ''mfcc'')
        \<and> length (array_value (query_fp ''mfcc'')) = length (array_value (target_fp ''mfcc''))
        \<and> is_vector (query_fp ''chroma'') \<and> is_vector (target_fp ''chroma'')
        \<and> length (array_value (query_fp ''chroma'')) = length (array_value (target_fp ''chroma''))
        \<and> scalar_or_missing (query_fp ''tempo'') \<and> scalar_or_missing (target_fp ''tempo'')
        \<and> scalar_or_missing (query_fp ''energy'') \<and> scalar_or_missing (target_fp ''energy'')
        \<and> string_or_missing (query_fp ''key'') \<and> string_or_missing (target_fp ''key'')
       \<longrightarrow> dom (calculate_detailed_similarity query_fp target_fp)
             = {''mfcc'', ''chroma'', ''tempo'', ''energy'', ''key'', ''overall''})
   \<and> (query_fp ''mfcc'' = None \<or> target_fp ''mfcc'' = None
       \<longrightarrow> calculate_detailed_similarity query_fp target_fp ''mfcc'' = None)
   \<and> (query_fp ''chroma'' = None \<or> target_fp ''chroma'' = None
       \<longrightarrow> calculate_detailed_similarity query_fp target_fp ''chroma'' = None)
   \<and> (\<forall>e. detailed_similarity_body query_fp target_fp = Inl e
       \<longrightarrow> calculate_detailed_similarity query_fp target_fp = [''overall'' \<mapsto> Fin 0])"
proof (intro conjI allI impI)
  fix name v
  assume "calculate_detailed_similarity query_fp target_fp name = Some v"
  then show "in_unit v"
    by (rule calculate_detailed_similarity_in_unit)
next
  show "\<exists>v. calculate_detailed_similarity query_fp target_fp ''overall'' = Some v"
    by (rule overall_always_returned)
next
  assume "is_vector (query_fp ''mfcc'') \<and> is_vector (target_fp ''mfcc'')
        \<and> length (array_value (query_fp ''mfcc'')) = length (array_value (target_fp ''mfcc''))
        \<and> is_vector (query_fp ''chroma'') \<and> is_vector (target_fp ''chroma'')
        \<and> length (array_value (query_fp ''chroma'')) = length (array_value (target_fp ''chroma''))
        \<and> scalar_or_missing (query_fp ''tempo'') \<and> scalar_or_missing (target_fp ''tempo'')
        \<and> scalar_or_missing (query_fp ''energy'') \<and> scalar_or_missing (target_fp ''energy'')
        \<and> string_or_missing (query_fp ''key'') \<and> string_or_missing (target_fp ''key'')"
  then show "dom (calculate_detailed_similarity query_fp target_fp)
             = {''mfcc'', ''chroma'', ''tempo'', ''energy'', ''key'', ''overall''}"
    by (elim conjE) (rule all_six_channels[THEN conjunct1])
next
  assume "query_fp ''mfcc'' = None \<or> target_fp ''mfcc'' = None"
  then show "calculate_detailed_similarity query_fp target_fp ''mfcc'' = None"
    by (rule missing_field_no_channel[of query_fp "''mfcc''" target_fp]) simp
next
  assume "query_fp ''chroma'' = None \<or> target_fp ''chroma'' = None"
  then show "calculate_detailed_similarity query_fp target_fp ''chroma'' = None"
    by (rule missing_field_no_channel[of query_fp "''chroma''" target_fp]) simp
next
  fix e
  assume "detailed_similarity_body query_fp target_fp = Inl e"
  then show "calculate_detailed_similarity query_fp target_fp = [''overall'' \<mapsto> Fin 0]"
    by (simp add: calculate_detailed_similarity_def set_channel_def)
qed


subsection \<open>The scorer on concrete fingerprints\<close>

lemma empty_fingerprint_scored_fields:
  "map (get_empty_fingerprint self) [''mfcc'', ''chroma'', ''tempo'', ''energy'', ''key''] =
    [Some (NdArray (replicate (n_mfcc self) 0)), Some (NdArray (replicate 12 0)),
     Some (PyNum 0), Some (PyNum 0), Some (PyStr ''Unknown'')]"
  by code_simp

lemma c_major_fields:
  fixes self :: fingerprinter
  defines "c \<equiv> (get_empty_fingerprint self)(''key'' \<mapsto> PyStr ''C major'')"
  shows "c ''mfcc'' = Some (NdArray (replicate (n_mfcc self) 0))"
    and "c ''chroma'' = Some (NdArray (replicate 12 0))"
    and "c ''tempo'' = Some (PyNum 0)"
    and "c ''energy'' = Some (PyNum 0)"
    and "c ''key'' = Some (PyStr ''C major'')"
  using empty_fingerprint_scored_fields[of self] by (simp_all add: c_def)

lemma dot_zeros: "dot (replicate n 0) (replicate n 0) = 0"
  by (induction n) simp_all

lemma cosine_zeros:
  "cosine (NdArray (replicate n 0)) (NdArray (replicate n 0)) = Inr NaN"
  by (simp add: cosine_def dot_zeros np_sub_def)

lemma c_major_body:
  fixes self :: fingerprinter
  defines "c \<equiv> (get_empty_fingerprint self)(''key'' \<mapsto> PyStr ''C major'')"
  shows "cosine_similarity ''mfcc'' c c = Inr (Some (Fin 0))"
    and "cosine_similarity ''chroma'' c c = Inr (Some (Fin 0))"
    and "tempo_similarity c c = Inr (Fin 1)"
    and "energy_similarity c c = Inr (Fin 0.5)"
    and "key_similarity c c = Inr (Fin 1)"
proof -
  note f = c_major_fields[of self, folded c_def]
  show "cosine_similarity ''mfcc'' c c = Inr (Some (Fin 0))"
    by (simp add: cosine_similarity_def f cosine_zeros np_sub_def py_max_zero_NaN)
  show "cosine_similarity ''chroma'' c c = Inr (Some (Fin 0))"
    by (simp add: cosine_similarity_def f cosine_zeros np_sub_def py_max_zero_NaN)
  show "tempo_similarity c c = Inr (Fin 1)"
    by (simp add: tempo_similarity_def dict_get_def f as_number_def py_max_zero_Fin)
  show "energy_similarity c c = Inr (Fin 0.5)"
    by (simp add: energy_similarity_def dict_get_def f as_number_def)
  show "key_similarity c c = Inr (Fin 1)"
    by (simp add: key_similarity_def dict_get_def f)
qed

lemma c_major_score:
  fixes self :: fingerprinter
  defines "c \<equiv> (get_empty_fingerprint self)(''key'' \<mapsto> PyStr ''C major'')"
  shows "calculate_detailed_similarity c c =
    [''mfcc'' \<mapsto> Fin 0, ''chroma'' \<mapsto> Fin 0, ''tempo'' \<mapsto> Fin 1, ''energy'' \<mapsto> Fin 0.5,
     ''key'' \<mapsto> Fin 1, ''overall'' \<mapsto> Fin 0.375]"
  unfolding calculate_detailed_similarity_def detailed_similarity_body_def
    c_major_body[of self, folded c_def]
  by (simp add: set_channel_def weighted_sum_def weights_def dict_get_def)

text \<open>
  C4, as amended.  For two fingerprints whose key is \<^verbatim>\<open>C major\<close> and whose other fields
  are zero (the zero fingerprint with the key replaced), the scorer gives \<open>key = 1.0\<close>
  and \<open>overall = 0.375\<close>: energy contributes \<open>0.5 \<sqdot> 0.15\<close>, key \<open>1.0 \<sqdot> 0.10\<close>, mfcc and
  chroma \<open>0\<close>, and tempo, equal on both sides, \<open>1.0 \<sqdot> 0.20\<close>.
\<close>

theorem c_major_zero_score:
  "calculate_detailed_similarity
     ((get_empty_fingerprint default_fingerprinter)(''key'' \<mapsto> PyStr ''C major''))
     ((get_empty_fingerprint default_fingerprinter)(''key'' \<mapsto> PyStr ''C major''))
   = [''mfcc'' \<mapsto> Fin 0, ''chroma'' \<mapsto> Fin 0, ''tempo'' \<mapsto> Fin 1, ''energy'' \<mapsto> Fin 0.5,
      ''key'' \<mapsto> Fin 1, ''overall'' \<mapsto> Fin 0.375]"
  by (rule c_major_score)

text \<open>The claim as stated fails there: the overall score is not \<open>0.175\<close> and the tempo
  channel is not \<open>0\<close>.\<close>

theorem c_major_zero_score_counterexample:
  "calculate_detailed_similarity
     ((get_empty_fingerprint default_fingerprinter)(''key'' \<mapsto> PyStr ''C major''))
     ((get_empty_fingerprint default_fingerprinter)(''key'' \<mapsto> PyStr ''C major''))
     ''overall'' \<noteq> Some (Fin 0.175)
   \<and> calculate_detailed_similarity
     ((get_empty_fingerprint default_fingerprinter)(''key'' \<mapsto> PyStr ''C major''))
     ((get_empty_fingerprint default_fingerprinter)(''key'' \<mapsto> PyStr ''C major''))
     ''tempo'' \<noteq> Some (Fin 0)"
  unfolding c_major_score by simp


theorem calculate_detailed_similarity_channels_witness:
  "is_vector (((get_empty_fingerprint default_fingerprinter)(''key'' \<mapsto> PyStr ''C major'')) ''mfcc'')
   \<and> is_vector (((get_empty_fingerprint default_fingerprinter)(''key'' \<mapsto> PyStr ''C major'')) ''chroma'')
   \<and> scalar_or_missing (((get_empty_fingerprint default_fingerprinter)(''key'' \<mapsto> PyStr ''C major'')) ''tempo'')
   \<and> scalar_or_missing (((get_empty_fingerprint default_fingerprinter)(''key'' \<mapsto> PyStr ''C major'')) ''energy'')
   \<and> string_or_missing (((get_empty_fingerprint default_fingerprinter)(''key'' \<mapsto> PyStr ''C major'')) ''key'')
   \<and> dom (calculate_detailed_similarity
          ((get_empty_fingerprint default_fingerprinter)(''key'' \<mapsto> PyStr ''C major''))
          ((get_empty_fingerprint default_fingerprinter)(''key'' \<mapsto> PyStr ''C major'')))
       = {''mfcc'', ''chroma'', ''tempo'', ''energy'', ''key'', ''overall''}
   \<and> calculate_detailed_similarity Map.empty Map.empty ''mfcc'' = None
   \<and> calculate_detailed_similarity Map.empty Map.empty ''chroma'' = None
   \<and> detailed_similarity_body [''mfcc'' \<mapsto> NdArray [1]] [''mfcc'' \<mapsto> NdArray [1, 2]]
       = Inl ValueError
   \<and> calculate_detailed_similarity [''mfcc'' \<mapsto> NdArray [1]] [''mfcc'' \<mapsto> NdArray [1, 2]]
       = [''overall'' \<mapsto> Fin 0]"
proof -
  define c where "c = (get_empty_fingerprint default_fingerprinter)(''key'' \<mapsto> PyStr ''C major'')"
  note f = c_major_fields[of default_fingerprinter, folded c_def]
  have h: "is_vector (c ''mfcc'')" "is_vector (c ''chroma'')"
    "scalar_or_missing (c ''tempo'')" "scalar_or_missing (c ''energy'')"
    "string_or_missing (c ''key'')"
    by (simp_all add: f)
  have "dom (calculate_detailed_similarity c c)
       = {''mfcc'', ''chroma'', ''tempo'', ''energy'', ''key'', ''overall''}"
    using calculate_detailed_similarity_channels[of c c] h by simp
  moreover have "calculate_detailed_similarity Map.empty Map.empty ''mfcc'' = None"
    "calculate_detailed_similarity Map.empty Map.empty ''chroma'' = None"
    using calculate_detailed_similarity_channels[of Map.empty Map.empty] by simp_all
  moreover have e: "detailed_similarity_body [''mfcc'' \<mapsto> NdArray [1]] [''mfcc'' \<mapsto> NdArray [1, 2]]
       = Inl ValueError"
    by (simp add: detailed_similarity_body_def cosine_similarity_def cosine_def)
  moreover have "calculate_detailed_similarity [''mfcc'' \<mapsto> NdArray [1]] [''mfcc'' \<mapsto> NdArray [1, 2]]
       = [''overall'' \<mapsto> Fin 0]"
    using calculate_detailed_similarity_channels[of "[''mfcc'' \<mapsto> NdArray [1]]"
        "[''mfcc'' \<mapsto> NdArray [1, 2]]"] e by blast
  ultimately show ?thesis
    using h unfolding c_def by (intro conjI)
qed

lemma empty_dict_body:
  "\<exists>sims. detailed_similarity_body Map.empty Map.empty = Inr sims"
  by (simp add: detailed_similarity_body_def cosine_similarity_def tempo_similarity_def
        energy_similarity_def key_similarity_def dict_get_def as_number_def Let_def)

lemma tempo_channel_returned:
  assumes "detailed_similarity_body query_fp target_fp = Inr sims"
    and "tempo_similarity query_fp target_fp = Inr x"
  shows "calculate_detailed_similarity query_fp target_fp ''tempo'' = Some x"
proof -
  from assms have "sims ''tempo'' = Some x"
    by (elim detailed_similarity_body_result) simp
  with assms(1) show ?thesis
    by (simp add: calculate_detailed_similarity_def)
qed

lemma no_tempo_channel_on_exception:
  assumes "detailed_similarity_body query_fp target_fp = Inl e"
  shows "calculate_detailed_similarity query_fp target_fp ''tempo'' = None"
  using assms by (simp add: calculate_detailed_similarity_def set_channel_def)

lemma mismatched_mfcc_body:
  "detailed_similarity_body [''mfcc'' \<mapsto> NdArray [1, 2]] [''mfcc'' \<mapsto> NdArray [1, 2, 3]]
     = Inl ValueError"
  by (simp add: detailed_similarity_body_def cosine_similarity_def cosine_def)

text \<open>
  C10, as amended.  The tempo channel takes \<open>120\<close> for a missing \<^verbatim>\<open>tempo\<close>.  When both
  fingerprints lack the field and no channel of the scorer raises, the channel
  \<^verbatim>\<open>tempo\<close> of the dictionary returned is \<open>1\<close>; when one of them lacks it and the other
  holds the number \<open>other\<close>, it is \<open>max(0, 1 - |120 - other| / max(120, other, 1))\<close>.
  The lines of the tempo channel do not raise in these cases.  When another channel
  raises, the dictionary returned has no channel \<^verbatim>\<open>tempo\<close>.
\<close>

theorem missing_tempo_defaults_to_120:
  "(query_fp ''tempo'' = None \<and> target_fp ''tempo'' = None \<longrightarrow>
      tempo_similarity query_fp target_fp = Inr (Fin 1)
      \<and> (\<forall>sims. detailed_similarity_body query_fp target_fp = Inr sims \<longrightarrow>
            calculate_detailed_similarity query_fp target_fp ''tempo'' = Some (Fin 1)))
   \<and> (query_fp ''tempo'' = None \<and> target_fp ''tempo'' = Some v \<and> py_scalar v = Some other \<longrightarrow>
      tempo_similarity query_fp target_fp
        = Inr (Fin (max 0 (1 - \<bar>120 - other\<bar> / max (max 120 other) 1)))
      \<and> (\<forall>sims. detailed_similarity_body query_fp target_fp = Inr sims \<longrightarrow>
            calculate_detailed_similarity query_fp target_fp ''tempo''
              = Some (Fin (max 0 (1 - \<bar>120 - other\<bar> / max (max 120 other) 1)))))
   \<and> (query_fp ''tempo'' = Some v \<and> py_scalar v = Some other \<and> target_fp ''tempo'' = None \<longrightarrow>
      tempo_similarity query_fp target_fp
        = Inr (Fin (max 0 (1 - \<bar>other - 120\<bar> / max (max other 120) 1)))
      \<and> (\<forall>sims. detailed_similarity_body query_fp target_fp = Inr sims \<longrightarrow>
            calculate_detailed_similarity query_fp target_fp ''tempo''
              = Some (Fin (max 0 (1 - \<bar>other - 120\<bar> / max (max other 120) 1)))))
   \<and> (\<forall>e. detailed_similarity_body query_fp target_fp = Inl e \<longrightarrow>
        calculate_detailed_similarity query_fp target_fp ''tempo'' = None)"
proof -
  have a: "tempo_similarity query_fp target_fp = Inr (Fin 1)"
    if "query_fp ''tempo'' = None \<and> target_fp ''tempo'' = None"
    using that by (simp add: tempo_similarity_def dict_get_def as_number_def py_max_zero_Fin)
  have b: "tempo_similarity query_fp target_fp
        = Inr (Fin (max 0 (1 - \<bar>120 - other\<bar> / max (max 120 other) 1)))"
    if "query_fp ''tempo'' = None \<and> target_fp ''tempo'' = Some v \<and> py_scalar v = Some other"
    using that by (simp add: tempo_similarity_def dict_get_def as_number_def py_max_zero_Fin)
  have c: "tempo_similarity query_fp target_fp
        = Inr (Fin (max 0 (1 - \<bar>other - 120\<bar> / max (max other 120) 1)))"
    if "query_fp ''tempo'' = Some v \<and> py_scalar v = Some other \<and> target_fp ''tempo'' = None"
    using that by (simp add: tempo_similarity_def dict_get_def as_number_def py_max_zero_Fin)
  show ?thesis
  proof (intro conjI impI allI)
    assume h: "query_fp ''tempo'' = None \<and> target_fp ''tempo'' = None"
    show "tempo_similarity query_fp target_fp = Inr (Fin 1)"
      by (rule a[OF h])
    fix sims assume "detailed_similarity_body query_fp target_fp = Inr sims"
    then show "calculate_detailed_similarity query_fp target_fp ''tempo'' = Some (Fin 1)"
      using a[OF h] by (rule tempo_channel_returned)
  next
    assume h: "query_fp ''tempo'' = None \<and> target_fp ''tempo'' = Some v \<and> py_scalar v = Some other"
    show "tempo_similarity query_fp target_fp
        = Inr (Fin (max 0 (1 - \<bar>120 - other\<bar> / max (max 120 other) 1)))"
      by (rule b[OF h])
    fix sims assume "detailed_similarity_body query_fp target_fp = Inr sims"
    then show "calculate_detailed_similarity query_fp target_fp ''tempo''
              = Some (Fin (max 0 (1 - \<bar>120 - other\<bar> / max (max 120 other) 1)))"
      using b[OF h] by (rule tempo_channel_returned)
  next
    assume h: "query_fp ''tempo'' = Some v \<and> py_scalar v = Some other \<and> target_fp ''tempo'' = None"
    show "tempo_similarity query_fp target_fp
        = Inr (Fin (max 0 (1 - \<bar>other - 120\<bar> / max (max other 120) 1)))"
      by (rule c[OF h])
    fix sims assume "detailed_similarity_body query_fp target_fp = Inr sims"
    then show "calculate_detailed_similarity query_fp target_fp ''tempo''
              = Some (Fin (max 0 (1 - \<bar>other - 120\<bar> / max (max other 120) 1)))"
      using c[OF h] by (rule tempo_channel_returned)
  next
    fix e assume "detailed_similarity_body query_fp target_fp = Inl e"
    then show "calculate_detailed_similarity query_fp target_fp ''tempo'' = None"
      by (rule no_tempo_channel_on_exception)
  qed
qed

theorem missing_tempo_defaults_to_120_witness:
  "tempo_similarity Map.empty Map.empty = Inr (Fin 1)
   \<and> calculate_detailed_similarity Map.empty Map.empty ''tempo'' = Some (Fin 1)
   \<and> py_scalar (PyNum 180) = Some 180
   \<and> tempo_similarity Map.empty [''tempo'' \<mapsto> PyNum 180] = Inr (Fin (2 / 3))
   \<and> calculate_detailed_similarity Map.empty [''tempo'' \<mapsto> PyNum 180] ''tempo''
       = Some (Fin (2 / 3))
   \<and> tempo_similarity [''tempo'' \<mapsto> NpNum 60] Map.empty = Inr (Fin (1 / 2))
   \<and> calculate_detailed_similarity [''tempo'' \<mapsto> NpNum 60] Map.empty ''tempo''
       = Some (Fin (1 / 2))
   \<and> detailed_similarity_body [''mfcc'' \<mapsto> NdArray [1, 2]] [''mfcc'' \<mapsto> NdArray [1, 2, 3]]
       = Inl ValueError
   \<and> calculate_detailed_similarity [''mfcc'' \<mapsto> NdArray [1, 2]]
        [''mfcc'' \<mapsto> NdArray [1, 2, 3]] ''tempo'' = None"
proof -
  obtain s0 where s0: "detailed_similarity_body Map.empty Map.empty = Inr s0"
    using empty_dict_body by blast
  obtain s1 where s1: "detailed_similarity_body Map.empty [''tempo'' \<mapsto> PyNum 180] = Inr s1"
    by (simp add: detailed_similarity_body_def cosine_similarity_def tempo_similarity_def
        energy_similarity_def key_similarity_def dict_get_def as_number_def Let_def)
  obtain s2 where s2: "detailed_similarity_body [''tempo'' \<mapsto> NpNum 60] Map.empty = Inr s2"
    by (simp add: detailed_similarity_body_def cosine_similarity_def tempo_similarity_def
        energy_similarity_def key_similarity_def dict_get_def as_number_def Let_def)
  note t0 = missing_tempo_defaults_to_120[of Map.empty Map.empty "PyNum 0" 0]
  from t0 have a: "tempo_similarity Map.empty Map.empty = Inr (Fin 1)"
    by simp
  from t0 s0 have a': "calculate_detailed_similarity Map.empty Map.empty ''tempo'' = Some (Fin 1)"
    by simp
  note t1 = missing_tempo_defaults_to_120[of Map.empty "[''tempo'' \<mapsto> PyNum 180]" "PyNum 180" 180]
  from t1 have b: "tempo_similarity Map.empty [''tempo'' \<mapsto> PyNum 180] = Inr (Fin (2 / 3))"
    by simp
  from t1 s1 have b': "calculate_detailed_similarity Map.empty [''tempo'' \<mapsto> PyNum 180] ''tempo''
       = Some (Fin (2 / 3))"
    by simp
  note t2 = missing_tempo_defaults_to_120[of "[''tempo'' \<mapsto> NpNum 60]" Map.empty "NpNum 60" 60]
  from t2 have c: "tempo_similarity [''tempo'' \<mapsto> NpNum 60] Map.empty = Inr (Fin (1 / 2))"
    by simp
  from t2 s2 have c': "calculate_detailed_similarity [''tempo'' \<mapsto> NpNum 60] Map.empty ''tempo''
       = Some (Fin (1 / 2))"
    by simp
  note e = mismatched_mfcc_body
  from missing_tempo_defaults_to_120[of "[''mfcc'' \<mapsto> NdArray [1, 2]]"
      "[''mfcc'' \<mapsto> NdArray [1, 2, 3]]" "PyNum 0" 0] e
  have d: "calculate_detailed_similarity [''mfcc'' \<mapsto> NdArray [1, 2]]
        [''mfcc'' \<mapsto> NdArray [1, 2, 3]] ''tempo'' = None"
    by blast
  have p: "py_scalar (PyNum 180) = Some 180" by simp
  from a a' p b b' c c' e d show ?thesis
    by (intro conjI)
qed

text \<open>
  The claim as stated fails: both fingerprints lack \<^verbatim>\<open>tempo\<close>, their \<^verbatim>\<open>mfcc\<close> vectors
  have two and three entries, the cosine distance raises, and the dictionary returned
  has no channel \<^verbatim>\<open>tempo\<close>: it is \<open>overall = 0\<close> alone.
\<close>

theorem missing_tempo_counterexample:
  "[''mfcc'' \<mapsto> NdArray [1, 2]] ''tempo'' = None
   \<and> [''mfcc'' \<mapsto> NdArray [1, 2, 3]] ''tempo'' = None
   \<and> calculate_detailed_similarity [''mfcc'' \<mapsto> NdArray [1, 2]]
        [''mfcc'' \<mapsto> NdArray [1, 2, 3]] ''tempo'' = None
   \<and> calculate_detailed_similarity [''mfcc'' \<mapsto> NdArray [1, 2]]
        [''mfcc'' \<mapsto> NdArray [1, 2, 3]] = [''overall'' \<mapsto> Fin 0]"
proof -
  have "calculate_detailed_similarity [''mfcc'' \<mapsto> NdArray [1, 2]]
        [''mfcc'' \<mapsto> NdArray [1, 2, 3]] = [''overall'' \<mapsto> Fin 0]"
    by (simp add: calculate_detailed_similarity_def mismatched_mfcc_body set_channel_def)
  moreover have "calculate_detailed_similarity [''mfcc'' \<mapsto> NdArray [1, 2]]
        [''mfcc'' \<mapsto> NdArray [1, 2, 3]] ''tempo'' = None"
    using mismatched_mfcc_body by (rule no_tempo_channel_on_exception)
  ultimately show ?thesis by simp
qed

lemma parse_fingerprint_empty:
  "parse_fingerprint Map.empty =
     [''tempo'' \<mapsto> PyNum 0, ''energy'' \<mapsto> PyNum 0, ''key'' \<mapsto> PyStr ''Unknown'']"
  by (simp add: parse_fingerprint_def parse_array_features_def)

text \<open>
  The claim as stated fails: the fingerprint the parser makes of a stored record without
  arrays has no \<^verbatim>\<open>mfcc\<close> field, and the scorer returns no \<^verbatim>\<open>mfcc\<close> channel for it.
\<close>

theorem calculate_detailed_similarity_channels_counterexample:
  "calculate_detailed_similarity (parse_fingerprint Map.empty) (parse_fingerprint Map.empty)
     ''mfcc'' = None
   \<and> calculate_detailed_similarity (parse_fingerprint Map.empty) (parse_fingerprint Map.empty)
     ''tempo'' = Some (Fin 1)"
proof -
  have "parse_fingerprint Map.empty ''mfcc'' = None"
    by (simp add: parse_fingerprint_empty)
  then have "calculate_detailed_similarity (parse_fingerprint Map.empty)
      (parse_fingerprint Map.empty) ''mfcc'' = None"
    by (intro missing_field_no_channel[of "parse_fingerprint Map.empty" "''mfcc''"]) simp_all
  moreover have "calculate_detailed_similarity (parse_fingerprint Map.empty)
      (parse_fingerprint Map.empty) ''tempo'' = Some (Fin 1)"
    unfolding parse_fingerprint_empty
    by (simp add: calculate_detailed_similarity_def detailed_similarity_body_def
          cosine_similarity_def tempo_similarity_def energy_similarity_def key_similarity_def
          dict_get_def as_number_def Let_def set_channel_def py_max_zero_Fin)
  ultimately show ?thesis by (rule conjI)
qed


section \<open>Properties of key estimation\<close>

lemma length_np_roll: "length (np_roll a i) = length a"
  by (simp add: np_roll_def)

lemma np_corrcoef_not_finite:
  assumes "those (map finite_value x) = None" "length x = length y"
  shows "np_corrcoef x y = Inr NaN"
  using assms by (simp add: np_corrcoef_def)

text \<open>
  When every correlation is NaN no comparison succeeds, and the loop returns the key it
  was started with.
\<close>

lemma key_loop_all_nan:
  assumes "\<And>j. np_corrcoef chroma_mean (np_roll major_profile j) = Inr NaN"
    and "\<And>j. np_corrcoef chroma_mean (np_roll minor_profile j) = Inr NaN"
  shows "key_loop chroma_mean i todo (max_corr, estimated_key) = Inr estimated_key"
  using assms by (induction todo arbitrary: i) simp_all

lemma profile_lengths: "length major_profile = 12" "length minor_profile = 12"
  by (simp_all add: major_profile_def minor_profile_def)

lemma key_loop_not_finite:
  assumes "those (map finite_value chroma_mean) = None" "length chroma_mean = 12"
  shows "key_loop chroma_mean i todo (max_corr, estimated_key) = Inr estimated_key"
  by (rule key_loop_all_nan)
     (simp_all add: np_corrcoef_not_finite assms length_np_roll profile_lengths)

lemma replicate_12: "replicate 12 x = [x, x, x, x, x, x, x, x, x, x, x, x]"
  by (simp add: numeral_eq_Suc)

lemma those_replicate_Some: "those (replicate n (Some c)) = Some (replicate n c)"
  by (induction n) simp_all

lemma estimate_key_silence:
  "estimate_key (replicate 12 [0]) = ''C''"
proof -
  have s: "np_sum (replicate 12 (Fin 0)) = Fin 0"
    by (simp add: np_sum_def replicate_12)
  have b: "estimate_key_body (replicate 12 [0])
      = key_loop (replicate 12 NaN) 0 12 (Fin (- 1), ''C'')"
    by (simp add: estimate_key_body_def Let_def np_mean_def s)
  have "those (map finite_value (replicate 12 NaN)) = None"
    by (simp add: replicate_12)
  then have "key_loop (replicate 12 NaN) 0 12 (Fin (- 1), ''C'') = Inr ''C''"
    by (rule key_loop_not_finite) simp
  then show ?thesis
    by (simp add: estimate_key_def b)
qed

text \<open>A chromagram with the same energy in every pitch class: no variance, so every
  correlation is zero divided by zero.\<close>

lemma dot_zeros_left: "dot (replicate n 0) ys = 0"
proof (induction n arbitrary: ys)
  case 0
  then show ?case by (simp add: dot_def)
next
  case (Suc n)
  then show ?case by (cases ys) (simp_all add: dot_def)
qed

lemma np_corrcoef_flat:
  assumes "length y = 12"
  shows "np_corrcoef (replicate 12 (Fin c)) y = Inr NaN"
proof -
  have "sum_list (replicate 12 c) / 12 = c"
    by (simp add: sum_list_replicate)
  then show ?thesis
    using assms by (simp add: np_corrcoef_def those_replicate_Some dot_zeros_left Let_def)
qed

lemma estimate_key_flat:
  "estimate_key (replicate 12 [1]) = ''C''"
proof -
  have s: "np_sum (replicate 12 (Fin 1)) = Fin 12"
    by (simp add: np_sum_def replicate_12)
  have b: "estimate_key_body (replicate 12 [1])
      = key_loop (replicate 12 (Fin (1 / 12))) 0 12 (Fin (- 1), ''C'')"
    by (simp add: estimate_key_body_def Let_def np_mean_def s)
  have "key_loop (replicate 12 (Fin (1 / 12))) 0 12 (Fin (- 1), ''C'') = Inr ''C''"
    by (rule key_loop_all_nan)
       (simp_all add: np_corrcoef_flat length_np_roll profile_lengths)
  then show ?thesis
    by (simp add: estimate_key_def b)
qed

text \<open>
  C8.  On a chromagram whose time average is zero in every pitch class, and on one whose
  time average is the same in every pitch class (all correlations NaN), \<open>estimate_key\<close>
  returns \<^verbatim>\<open>C\<close>, the initial value of the loop, not \<^verbatim>\<open>Unknown\<close>: numpy returns NaN for
  the divisions and raises nothing, so the handler never runs.
\<close>

theorem estimate_key_degenerate_returns_C:
  "estimate_key (replicate 12 [0]) = ''C''
   \<and> estimate_key (replicate 12 [1]) = ''C''
   \<and> ''C'' \<noteq> ''Unknown''"
  using estimate_key_silence estimate_key_flat by simp

text \<open>The handler runs when the chromagram does not have twelve rows.\<close>

lemma estimate_key_wrong_shape:
  "estimate_key [[1]] = ''Unknown''"
  by (simp add: estimate_key_def estimate_key_body_def np_mean_def np_sum_def np_corrcoef_def
        length_np_roll profile_lengths Let_def numeral_eq_Suc)


section \<open>Properties of the stored form\<close>

lemma fingerprint_json_extracted:
  assumes "fp ''mfcc'' = Some (NdArray m)" "fp ''chroma'' = Some (NdArray c)"
    and "fp ''spectral_centroids'' = Some (NpNum sc)"
    and "fp ''spectral_rolloff'' = Some (NpNum ro)"
    and "fp ''zero_crossing_rate'' = Some (NpNum z)"
    and "fp ''tempo'' = Some (PyNum t)" "fp ''key'' = Some (PyStr k)"
    and "fp ''energy'' = Some (PyNum e)"
  shows "fingerprint_json fp = Inr
     [''mfcc'' \<mapsto> JList m, ''chroma'' \<mapsto> JList c, ''spectral_centroids'' \<mapsto> JNum sc,
      ''spectral_rolloff'' \<mapsto> JNum ro, ''zero_crossing_rate'' \<mapsto> JNum z,
      ''tempo'' \<mapsto> JNum t, ''key'' \<mapsto> JStr k, ''energy'' \<mapsto> JNum e]"
  by (simp add: fingerprint_json_def tolist_or_empty_def dict_get_def assms)

lemma parse_arrays_other:
  "name \<notin> set features \<Longrightarrow> parse_arrays j features fp name = fp name"
  by (induction features arbitrary: fp) (auto split: option.splits)

lemma parse_stored:
  fixes m c :: "real list" and sc ro z t e :: real and k :: string
  defines "j \<equiv> [''mfcc'' \<mapsto> JList m, ''chroma'' \<mapsto> JList c, ''spectral_centroids'' \<mapsto> JNum sc,
      ''spectral_rolloff'' \<mapsto> JNum ro, ''zero_crossing_rate'' \<mapsto> JNum z,
      ''tempo'' \<mapsto> JNum t, ''key'' \<mapsto> JStr k, ''energy'' \<mapsto> JNum e]"
  shows "parse_fingerprint j =
     (\<lambda>name. if name = ''key'' then Some (PyStr k)
        else if name = ''energy'' then Some (PyNum e)
        else if name = ''tempo'' then Some (PyNum t)
        else if name = ''zero_crossing_rate'' then (if z = 0 then None else Some (NdArray0 z))
        else if name = ''spectral_rolloff'' then (if ro = 0 then None else Some (NdArray0 ro))
        else if name = ''spectral_centroids'' then (if sc = 0 then None else Some (NdArray0 sc))
        else if name = ''chroma'' then (if c = [] then None else Some (NdArray c))
        else if name = ''mfcc'' then (if m = [] then None else Some (NdArray m))
        else None)"
  by (rule ext) (simp add: parse_fingerprint_def parse_array_features_def j_def Let_def)


text \<open>
  C2, as amended.  For a fingerprint as a successful extraction returns it,
  serialize-then-parse succeeds and keeps \<^verbatim>\<open>mfcc\<close> and \<^verbatim>\<open>chroma\<close> (entries and with
  them lengths), \<^verbatim>\<open>tempo\<close>, \<^verbatim>\<open>energy\<close> and \<^verbatim>\<open>key\<close> exactly.  The three scalars
  \<^verbatim>\<open>spectral_centroids\<close>, \<^verbatim>\<open>spectral_rolloff\<close> and \<^verbatim>\<open>zero_crossing_rate\<close> come back as
  zero-dimensional arrays of the same value, and are missing when the value is zero.
  No other field is stored.
\<close>

theorem serialize_then_parse:
  assumes "fp ''mfcc'' = Some (NdArray m)" "m \<noteq> []"
    and "fp ''chroma'' = Some (NdArray c)" "c \<noteq> []"
    and "fp ''spectral_centroids'' = Some (NpNum sc)"
    and "fp ''spectral_rolloff'' = Some (NpNum ro)"
    and "fp ''zero_crossing_rate'' = Some (NpNum z)"
    and "fp ''tempo'' = Some (PyNum t)" "fp ''key'' = Some (PyStr k)"
    and "fp ''energy'' = Some (PyNum e)"
  shows "\<exists>fp'. store_then_parse fp = Inr fp'
    \<and> fp' ''mfcc'' = fp ''mfcc'' \<and> fp' ''chroma'' = fp ''chroma''
    \<and> fp' ''tempo'' = fp ''tempo'' \<and> fp' ''energy'' = fp ''energy'' \<and> fp' ''key'' = fp ''key''
    \<and> fp' ''spectral_centroids'' = (if sc = 0 then None else Some (NdArray0 sc))
    \<and> fp' ''spectral_rolloff'' = (if ro = 0 then None else Some (NdArray0 ro))
    \<and> fp' ''zero_crossing_rate'' = (if z = 0 then None else Some (NdArray0 z))
    \<and> (\<forall>name. name \<notin> set stored_names \<longrightarrow> fp' name = None)"
proof -
  have "store_then_parse fp = Inr (parse_fingerprint
     [''mfcc'' \<mapsto> JList m, ''chroma'' \<mapsto> JList c, ''spectral_centroids'' \<mapsto> JNum sc,
      ''spectral_rolloff'' \<mapsto> JNum ro, ''zero_crossing_rate'' \<mapsto> JNum z,
      ''tempo'' \<mapsto> JNum t, ''key'' \<mapsto> JStr k, ''energy'' \<mapsto> JNum e])"
    by (simp add: store_then_parse_def
          fingerprint_json_extracted[OF assms(1,3,5,6,7,8,9,10)])
  then show ?thesis
    unfolding parse_stored using assms by (simp add: stored_names_def)
qed

lemma sample_extraction_stored_fields:
  "map sample_extraction (''mfcc_std'' # stored_names) =
    [Some (NdArray (replicate 13 2)),
     Some (NdArray (replicate 13 1)), Some (NdArray (replicate 12 3)), Some (NpNum 1500),
     Some (NpNum 3000), Some (NpNum 0), Some (PyNum 120), Some (PyStr ''C major''),
     Some (PyNum 2)]"
  by code_simp

lemma sample_extraction_fields:
  "sample_extraction ''mfcc_std'' = Some (NdArray (replicate 13 2))"
  "sample_extraction ''mfcc'' = Some (NdArray (replicate 13 1))"
  "sample_extraction ''chroma'' = Some (NdArray (replicate 12 3))"
  "sample_extraction ''spectral_centroids'' = Some (NpNum 1500)"
  "sample_extraction ''spectral_rolloff'' = Some (NpNum 3000)"
  "sample_extraction ''zero_crossing_rate'' = Some (NpNum 0)"
  "sample_extraction ''tempo'' = Some (PyNum 120)"
  "sample_extraction ''key'' = Some (PyStr ''C major'')"
  "sample_extraction ''energy'' = Some (PyNum 2)"
  using sample_extraction_stored_fields by (simp_all add: stored_names_def)

theorem serialize_then_parse_witness:
  "sample_extraction ''mfcc'' = Some (NdArray (replicate 13 1))
   \<and> sample_extraction ''chroma'' = Some (NdArray (replicate 12 3))
   \<and> sample_extraction ''spectral_centroids'' = Some (NpNum 1500)
   \<and> sample_extraction ''spectral_rolloff'' = Some (NpNum 3000)
   \<and> sample_extraction ''zero_crossing_rate'' = Some (NpNum 0)
   \<and> sample_extraction ''tempo'' = Some (PyNum 120)
   \<and> sample_extraction ''key'' = Some (PyStr ''C major'')
   \<and> sample_extraction ''energy'' = Some (PyNum 2)
   \<and> (\<exists>fp'. store_then_parse sample_extraction = Inr fp'
        \<and> fp' ''mfcc'' = Some (NdArray (replicate 13 1))
        \<and> fp' ''spectral_centroids'' = Some (NdArray0 1500)
        \<and> fp' ''zero_crossing_rate'' = None
        \<and> fp' ''mfcc_std'' = None)"
proof -
  note f = sample_extraction_fields
  have "replicate 13 (1::real) \<noteq> []" "replicate 12 (3::real) \<noteq> []"
    by simp_all
  from serialize_then_parse[OF f(2) this(1) f(3) this(2) f(4) f(5) f(6) f(7) f(8) f(9)]
  obtain fp' where "store_then_parse sample_extraction = Inr fp'"
    "fp' ''mfcc'' = sample_extraction ''mfcc''"
    "fp' ''spectral_centroids'' = Some (NdArray0 1500)"
    "fp' ''zero_crossing_rate'' = None"
    "\<forall>name. name \<notin> set stored_names \<longrightarrow> fp' name = None"
    by auto
  moreover have "''mfcc_std'' \<notin> set stored_names"
    by (simp add: stored_names_def)
  ultimately have "\<exists>fp'. store_then_parse sample_extraction = Inr fp'
        \<and> fp' ''mfcc'' = Some (NdArray (replicate 13 1))
        \<and> fp' ''spectral_centroids'' = Some (NdArray0 1500)
        \<and> fp' ''zero_crossing_rate'' = None
        \<and> fp' ''mfcc_std'' = None"
    using f(2) by auto
  with f show ?thesis by (intro conjI)
qed

lemma sample_extraction_round_trip:
  "store_then_parse sample_extraction = Inr
     [''mfcc'' \<mapsto> NdArray (replicate 13 1), ''chroma'' \<mapsto> NdArray (replicate 12 3),
      ''spectral_centroids'' \<mapsto> NdArray0 1500, ''spectral_rolloff'' \<mapsto> NdArray0 3000,
      ''tempo'' \<mapsto> PyNum 120, ''energy'' \<mapsto> PyNum 2, ''key'' \<mapsto> PyStr ''C major'']"
proof -
  note f = sample_extraction_fields
  have "store_then_parse sample_extraction = Inr (parse_fingerprint
     [''mfcc'' \<mapsto> JList (replicate 13 1), ''chroma'' \<mapsto> JList (replicate 12 3),
      ''spectral_centroids'' \<mapsto> JNum 1500,
      ''spectral_rolloff'' \<mapsto> JNum 3000, ''zero_crossing_rate'' \<mapsto> JNum 0,
      ''tempo'' \<mapsto> JNum 120, ''key'' \<mapsto> JStr ''C major'', ''energy'' \<mapsto> JNum 2])"
    by (simp add: store_then_parse_def
          fingerprint_json_extracted[OF f(2) f(3) f(4) f(5) f(6) f(7) f(8) f(9)])
  then show ?thesis
    by (simp add: parse_fingerprint_def parse_array_features_def Let_def)
qed

text \<open>
  The claim as stated fails: the round trip of the sample fingerprint has lost
  \<^verbatim>\<open>mfcc_std\<close>, and \<^verbatim>\<open>spectral_centroids\<close> is no longer the scalar it was.
\<close>

theorem serialize_then_parse_counterexample:
  "store_then_parse sample_extraction \<noteq> Inr sample_extraction
   \<and> map_sum id (\<lambda>fp'. fp' ''mfcc_std'') (store_then_parse sample_extraction) = Inr None
   \<and> sample_extraction ''mfcc_std'' = Some (NdArray (replicate 13 2))"
proof -
  have a: "map_sum id (\<lambda>fp'. fp' ''mfcc_std'') (store_then_parse sample_extraction) = Inr None"
    unfolding sample_extraction_round_trip by simp
  have b: "sample_extraction ''mfcc_std'' = Some (NdArray (replicate 13 2))"
    by (rule sample_extraction_fields)
  have "store_then_parse sample_extraction \<noteq> Inr sample_extraction"
  proof
    assume "store_then_parse sample_extraction = Inr sample_extraction"
    with a have "sample_extraction ''mfcc_std'' = None" by simp
    with b show False by simp
  qed
  with a b show ?thesis by (intro conjI)
qed

text \<open>
  The zero fingerprint is not of that shape: its scalars are Python floats, which have
  no \<^verbatim>\<open>tolist\<close>, and \<^verbatim>\<open>store_audio_data\<close> stores nothing for it.
\<close>

lemma empty_fingerprint_stored_fields:
  "map (get_empty_fingerprint self) [''mfcc'', ''chroma'', ''spectral_centroids''] =
    [Some (NdArray (replicate (n_mfcc self) 0)), Some (NdArray (replicate 12 0)), Some (PyNum 0)]"
  by code_simp

lemma empty_fingerprint_not_serializable:
  "fingerprint_json (get_empty_fingerprint self) = Inl AttributeError"
  using empty_fingerprint_stored_fields[of self]
  by (simp add: fingerprint_json_def tolist_or_empty_def)


section \<open>Properties of the engine\<close>

subsection \<open>The standardizer and the index\<close>

lemma length_scaler_fit: "length (scaler_mean (scaler_fit X)) = length (hd X)"
  by (simp add: scaler_fit_def Let_def)

lemma scaler_fit_single:
  "scaler_fit [v] = \<lparr> scaler_mean = v, scaler_scale = replicate (length v) 1 \<rparr>"
  by (simp add: scaler_fit_def Let_def column_def map_nth comp_def map_replicate_const)

lemma transform_by_own_mean:
  "map (\<lambda>(xj, (m, s)). (xj - m) / s) (zip v (zip v (replicate (length v) 1)))
     = replicate (length v) (0::real)"
  by (induction v) simp_all

lemma length_transform:
  "length x = length ms \<Longrightarrow> length ms = length ss \<Longrightarrow>
   length (map (\<lambda>(xj, (m, s)). (xj - m) / s) (zip x (zip ms ss))) = length x"
  by simp

lemma dot_replicate_zero [simp]: "dot (replicate n 0) ys = 0"
proof (induction n arbitrary: ys)
  case 0
  then show ?case by (simp add: dot_def)
next
  case (Suc n)
  then show ?case by (cases ys) (simp_all add: dot_def)
qed

lemma normalize_L2_zeros [simp]: "normalize_L2 (replicate n 0) = replicate n 0"
  by (simp add: normalize_L2_def)

lemma length_normalize_L2 [simp]: "length (normalize_L2 x) = length x"
  by (simp add: normalize_L2_def)

text \<open>The engine the program builds from a store of one row.\<close>

lemma single_song_engine:
  assumes "create_feature_vector (parse_fingerprint (row_fingerprint_data r)) = Inr v"
  shows "initialize_index [r] =
    \<lparr> scaler = Some \<lparr> scaler_mean = v, scaler_scale = replicate (length v) 1 \<rparr>,
      index = Some \<lparr> index_d = length v, index_rows = [replicate (length v) 0] \<rparr>,
      feature_dim = Some (length v),
      indexed_songs = [song_of_row r (parse_fingerprint (row_fingerprint_data r))] \<rparr>"
  by (simp add: initialize_index_def build_faiss_index_def assms Let_def np_matrix_def
        new_engine_def scaler_fit_single transform_by_own_mean)


subsection \<open>search\_local\<close>

lemma search_local_not_initialized:
  assumes "index self = None \<or> indexed_songs self = []"
  shows "search_local self query_fingerprint max_results threshold = []"
  using assms
  by (auto simp: search_local_def search_local_body_def split: option.splits)

lemma search_local_dimension_mismatch:
  assumes "index self \<noteq> None" "indexed_songs self \<noteq> []"
    and "create_feature_vector query_fingerprint = Inr v"
    and "scaler self = Some sc" "length v \<noteq> length (scaler_mean sc)"
  shows "search_local_body self query_fingerprint max_results threshold = Inl ValueError"
    and "search_local self query_fingerprint max_results threshold = []"
  using assms
  by (auto simp: search_local_def search_local_body_def scaler_transform_def
           split: option.splits)

text \<open>Every position in the answer of the index is \<open>-1\<close> or the position of a row.\<close>

lemma faiss_search_hits:
  assumes "length query = index_d idx" "0 < k"
  shows "\<exists>hits. faiss_search idx query k = Inr hits
     \<and> (\<forall>h\<in>set hits. snd h = - 1 \<or> (0 \<le> snd h \<and> snd h < int (length (index_rows idx))))"
proof -
  let ?scored = "zip (map (dot query) (index_rows idx)) (map int [0..<length (index_rows idx)])"
  let ?best = "take (nat k) (sort_key (\<lambda>(s, i). - s) ?scored)"
  have "set ?best \<subseteq> set ?scored"
    using set_take_subset[of "nat k" "sort_key (\<lambda>(s, i). - s) ?scored"] by simp
  moreover have "\<forall>h\<in>set ?scored. 0 \<le> snd h \<and> snd h < int (length (index_rows idx))"
  proof
    fix h assume h: "h \<in> set ?scored"
    obtain a b where ab: "h = (a, b)" by (cases h)
    from h have "b \<in> set (map int [0..<length (index_rows idx)])"
      unfolding ab by (rule set_zip_rightD)
    with ab have "snd h \<in> set (map int [0..<length (index_rows idx)])"
      by simp
    then show "0 \<le> snd h \<and> snd h < int (length (index_rows idx))"
      by auto
  qed
  ultimately have "\<forall>h\<in>set ?best. 0 \<le> snd h \<and> snd h < int (length (index_rows idx))"
    by blast
  then have "\<forall>h\<in>set (?best @ replicate (nat k - length ?best) (- FLT_MAX, - 1)).
      snd h = - 1 \<or> (0 \<le> snd h \<and> snd h < int (length (index_rows idx)))"
    by auto
  with assms show ?thesis
    by (simp add: faiss_search_def Let_def)
qed

lemma py_index_ok:
  assumes "i = - 1 \<or> (0 \<le> i \<and> i < int n)" "n \<le> length xs" "xs \<noteq> []"
  shows "\<exists>x. py_index xs i = Inr x"
  using assms by (cases xs) (auto simp: py_index_def Let_def)

lemma collect_results_ok:
  assumes "\<forall>h\<in>set hits. snd h = - 1 \<or> (0 \<le> snd h \<and> snd h < int n)"
    and "n \<le> length songs" "songs \<noteq> []"
  shows "\<exists>results. collect_results songs query_fingerprint threshold i hits acc = Inr results"
  using assms(1)
proof (induction hits arbitrary: i acc)
  case Nil
  then show ?case by simp
next
  case (Cons h hits)
  obtain similarity idx where h: "h = (similarity, idx)" by (cases h)
  with Cons.prems have "idx = - 1 \<or> (0 \<le> idx \<and> idx < int n)" by simp
  then obtain s where "py_index songs idx = Inr s"
    using py_index_ok[OF _ assms(2,3)] by blast
  moreover from Cons.prems have "\<forall>h\<in>set hits. snd h = - 1 \<or> (0 \<le> snd h \<and> snd h < int n)"
    by simp
  ultimately show ?case
    using Cons.IH h by simp
qed

text \<open>
  With a standardizer and an index of the dimension of the query's vector, and a positive
  number of results asked for, nothing in the body of \<open>search_local\<close> raises.
\<close>

lemma search_local_body_ok:
  assumes "index_ready (length v) self" "create_feature_vector query_fingerprint = Inr v"
    and "0 < max_results"
  shows "\<exists>results. search_local_body self query_fingerprint max_results threshold = Inr results"
proof -
  from assms(1) obtain sc idx where e: "scaler self = Some sc" "index self = Some idx"
    "length (scaler_mean sc) = length v" "index_d idx = length v"
    "length (index_rows idx) \<le> length (indexed_songs self)" "indexed_songs self \<noteq> []"
    "length (scaler_scale sc) = length v"
    by (auto simp: index_ready_def split: option.splits)
  let ?scaled = "map (\<lambda>(xj, (m, s)). (xj - m) / s) (zip v (zip (scaler_mean sc) (scaler_scale sc)))"
  have t: "scaler_transform (scaler self) v = Inr ?scaled"
    by (simp add: scaler_transform_def e)
  let ?k = "min (max_results * 2) (int (length (indexed_songs self)))"
  have True: "length ?scaled = length v"
    using e(3,7) by simp
  show ?thesis
  proof -
    have "0 < ?k" using assms(3) e(6) by simp
    moreover have "length (normalize_L2 ?scaled) = index_d idx"
      using True e(4) by simp
    ultimately obtain hits where h: "faiss_search idx (normalize_L2 ?scaled) ?k = Inr hits"
      "\<forall>h\<in>set hits. snd h = - 1 \<or> (0 \<le> snd h \<and> snd h < int (length (index_rows idx)))"
      using faiss_search_hits[of "normalize_L2 ?scaled" idx ?k] by blast
    obtain results where
      "collect_results (indexed_songs self) query_fingerprint threshold 0 hits [] = Inr results"
      using collect_results_ok[OF h(2) e(5,6)] by blast
    with h(1) t e assms(2) show ?thesis
      by (simp add: search_local_body_def)
  qed
qed


subsection \<open>The sample store\<close>


lemma parse_sample_json:
  "parse_fingerprint sample_json =
     (\<lambda>name. if name = ''key'' then Some (PyStr ''C major'')
        else if name = ''energy'' then Some (PyNum 2)
        else if name = ''tempo'' then Some (PyNum 120)
        else if name = ''zero_crossing_rate'' then None
        else if name = ''spectral_rolloff'' then Some (NdArray0 3000)
        else if name = ''spectral_centroids'' then Some (NdArray0 1500)
        else if name = ''chroma'' then Some (NdArray (replicate 12 3))
        else if name = ''mfcc'' then Some (NdArray (replicate 13 1))
        else None)"
  unfolding sample_json_def parse_stored by (rule ext) simp

lemma parsed_sample_scalars:
  "map (parse_fingerprint sample_json) scalar_features =
    [Some (NdArray0 1500), None, Some (NdArray0 3000), None, None, None, None, None,
     Some (PyNum 120), None, None, None, None, None, None, None, None, None, None,
     Some (PyNum 2)]"
  unfolding parse_sample_json by (simp add: scalar_features_def)

lemma parsed_sample_arrays:
  "map (parse_fingerprint sample_json) array_features =
    [Some (NdArray (replicate 13 1)), None, Some (NdArray (replicate 12 3)), None,
     None, None, None, None]"
  unfolding parse_sample_json by (simp add: array_features_def)

lemma parsed_sample_vector:
  "\<exists>v. create_feature_vector (parse_fingerprint sample_json) = Inr v \<and> length v = 45"
proof -
  have s: "list_all scalar_or_missing (map (parse_fingerprint sample_json) scalar_features)"
    unfolding parsed_sample_scalars by simp
  have a: "list_all array_or_missing (map (parse_fingerprint sample_json) array_features)"
    unfolding parsed_sample_arrays by simp
  show ?thesis
    unfolding create_feature_vector_maps[OF s a] parsed_sample_scalars parsed_sample_arrays
    by simp
qed

lemma sample_extraction_scalars:
  "map sample_extraction scalar_features =
    [Some (NpNum 1500), Some (NpNum 200), Some (NpNum 3000), Some (NpNum 400),
     Some (NpNum 0), Some (NpNum 0), Some (NpNum 1200), Some (NpNum 100),
     Some (PyNum 120), Some (NpNum 1), Some (NpNum 1), Some (NpNum 10), Some (NpNum 5),
     Some (NpNum 2), Some (NpNum 1), Some (NpNum 1), Some (NpNum 1), Some (NpNum (- 40)),
     Some (NpNum 10), Some (PyNum 2)]"
  by code_simp

lemma sample_extraction_arrays:
  "map sample_extraction array_features =
    [Some (NdArray (replicate 13 1)), Some (NdArray (replicate 13 2)),
     Some (NdArray (replicate 12 3)), Some (NdArray (replicate 12 1)),
     Some (NdArray (replicate 7 20)), Some (NdArray (replicate 7 5)),
     Some (NdArray (replicate 6 0)), Some (NdArray (replicate 6 1))]"
  by code_simp

lemma sample_extraction_vector:
  "\<exists>v. create_feature_vector sample_extraction = Inr v \<and> length v = 96"
proof -
  have s: "list_all scalar_or_missing (map sample_extraction scalar_features)"
    unfolding sample_extraction_scalars by simp
  have a: "list_all array_or_missing (map sample_extraction array_features)"
    unfolding sample_extraction_arrays by simp
  show ?thesis
    unfolding create_feature_vector_maps[OF s a] sample_extraction_scalars
      sample_extraction_arrays
    by simp
qed

text \<open>The engine a start of the program builds from a store holding the sample row.\<close>

lemma sample_engine:
  "\<exists>v. length v = 45 \<and> create_feature_vector (parse_fingerprint sample_json) = Inr v
     \<and> initialize_index [sample_row n file_path file_hash now] =
    \<lparr> scaler = Some \<lparr> scaler_mean = v, scaler_scale = replicate 45 1 \<rparr>,
      index = Some \<lparr> index_d = 45, index_rows = [replicate 45 0] \<rparr>,
      feature_dim = Some 45,
      indexed_songs = [song_of_row (sample_row n file_path file_hash now)
                         (parse_fingerprint sample_json)] \<rparr>"
proof -
  obtain v where v: "create_feature_vector (parse_fingerprint sample_json) = Inr v"
    "length v = 45"
    using parsed_sample_vector by blast
  have "row_fingerprint_data (sample_row n file_path file_hash now) = sample_json"
    by (simp add: sample_row_def)
  with v show ?thesis
    using single_song_engine[of "sample_row n file_path file_hash now" v] by simp
qed


text \<open>
  C5, as amended.  \<open>search_local\<close> returns the empty list on an engine without index
  or without songs, and it returns the empty list as well when the query's vector has
  another dimension than the standardizer: the \<^verbatim>\<open>ValueError\<close> of the transform is
  caught inside \<open>search_local\<close>, and no error reaches the caller.
\<close>

theorem search_local_empty_or_mismatch:
  "(index self = None \<or> indexed_songs self = []
      \<longrightarrow> search_local self query_fingerprint max_results threshold = [])
   \<and> (index self \<noteq> None \<and> indexed_songs self \<noteq> []
        \<and> create_feature_vector query_fingerprint = Inr v
        \<and> scaler self = Some sc \<and> length v \<noteq> length (scaler_mean sc)
      \<longrightarrow> search_local_body self query_fingerprint max_results threshold = Inl ValueError
          \<and> search_local self query_fingerprint max_results threshold = [])"
  using search_local_not_initialized[of self query_fingerprint max_results threshold]
    search_local_dimension_mismatch[of self query_fingerprint v sc max_results threshold]
  by blast

theorem search_local_empty_or_mismatch_witness:
  "index new_engine = None
   \<and> search_local new_engine sample_extraction 20 0.7 = []
   \<and> index (initialize_index [sample_row 1 ''a.wav'' ''hash-a'' ''t1'']) \<noteq> None
   \<and> indexed_songs (initialize_index [sample_row 1 ''a.wav'' ''hash-a'' ''t1'']) \<noteq> []
   \<and> search_local (initialize_index [sample_row 1 ''a.wav'' ''hash-a'' ''t1''])
        sample_extraction 20 0.7 = []"
proof -
  let ?e = "initialize_index [sample_row 1 ''a.wav'' ''hash-a'' ''t1'']"
  have n: "index new_engine = None"
    by (simp add: new_engine_def)
  with search_local_empty_or_mismatch[of new_engine sample_extraction 20 "0.7"]
  have a: "search_local new_engine sample_extraction 20 0.7 = []"
    by blast
  obtain v where v: "length v = 45"
    and e: "?e = \<lparr> scaler = Some \<lparr> scaler_mean = v, scaler_scale = replicate 45 1 \<rparr>,
      index = Some \<lparr> index_d = 45, index_rows = [replicate 45 0] \<rparr>,
      feature_dim = Some 45,
      indexed_songs = [song_of_row (sample_row 1 ''a.wav'' ''hash-a'' ''t1'')
                         (parse_fingerprint sample_json)] \<rparr>"
    using sample_engine[of 1 "''a.wav''" "''hash-a''" "''t1''"] by blast
  obtain w where w: "create_feature_vector sample_extraction = Inr w" "length w = 96"
    using sample_extraction_vector by blast
  have h: "index ?e \<noteq> None" "indexed_songs ?e \<noteq> []"
    "scaler ?e = Some \<lparr> scaler_mean = v, scaler_scale = replicate 45 1 \<rparr>"
    unfolding e by simp_all
  have "length w \<noteq> length (scaler_mean \<lparr> scaler_mean = v, scaler_scale = replicate 45 1 \<rparr>)"
    using v w(2) by simp
  with search_local_empty_or_mismatch[of ?e sample_extraction 20 "0.7" w
      "\<lparr> scaler_mean = v, scaler_scale = replicate 45 1 \<rparr>"] h w(1)
  have "search_local ?e sample_extraction 20 0.7 = []"
    by blast
  with n a h(1,2) show ?thesis by (intro conjI)
qed

text \<open>
  The claim as stated fails: on the index built from the sample store (dimension 45) a
  query with the sample fingerprint (dimension 96) does not fail; the body raises
  \<^verbatim>\<open>ValueError\<close>, the handler catches it and the caller receives the empty list.
\<close>

theorem search_local_mismatch_counterexample:
  "search_local_body (initialize_index [sample_row 1 ''a.wav'' ''hash-a'' ''t1''])
      sample_extraction 20 0.7 = Inl ValueError
   \<and> search_local (initialize_index [sample_row 1 ''a.wav'' ''hash-a'' ''t1''])
      sample_extraction 20 0.7 = []"
proof -
  let ?e = "initialize_index [sample_row 1 ''a.wav'' ''hash-a'' ''t1'']"
  obtain v where v: "length v = 45"
    and e: "?e = \<lparr> scaler = Some \<lparr> scaler_mean = v, scaler_scale = replicate 45 1 \<rparr>,
      index = Some \<lparr> index_d = 45, index_rows = [replicate 45 0] \<rparr>,
      feature_dim = Some 45,
      indexed_songs = [song_of_row (sample_row 1 ''a.wav'' ''hash-a'' ''t1'')
                         (parse_fingerprint sample_json)] \<rparr>"
    using sample_engine[of 1 "''a.wav''" "''hash-a''" "''t1''"] by blast
  obtain w where w: "create_feature_vector sample_extraction = Inr w" "length w = 96"
    using sample_extraction_vector by blast
  have h: "index ?e \<noteq> None" "indexed_songs ?e \<noteq> []"
    "scaler ?e = Some \<lparr> scaler_mean = v, scaler_scale = replicate 45 1 \<rparr>"
    unfolding e by simp_all
  have d: "length w \<noteq> length (scaler_mean \<lparr> scaler_mean = v, scaler_scale = replicate 45 1 \<rparr>)"
    using v w(2) by simp
  show ?thesis
    using search_local_dimension_mismatch[OF h(1,2) w(1) h(3) d, of 20 "0.7"]
    by (intro conjI)
qed


subsection \<open>add\_song\_to\_index\<close>

text \<open>
  Unless the number of songs reaches a multiple of one hundred, adding a song changes
  neither the standardizer nor the index: the feature vector is computed and dropped.
\<close>

lemma add_song_to_index_keeps_index:
  assumes "Suc (length (indexed_songs self)) mod 100 \<noteq> 0"
  shows "index (add_song_to_index stored self song_data) = index self"
    and "scaler (add_song_to_index stored self song_data) = scaler self"
  using assms
  by (auto simp: add_song_to_index_def Let_def split: sum.splits)

lemma sort_key_single [simp]: "sort_key f [x] = [x]"
  by simp

lemma add_sample_song:
  fixes r1 r2 :: song_row
  defines "r1 \<equiv> sample_row 1 ''a.wav'' ''hash-a'' ''t1''"
    and "r2 \<equiv> sample_row 2 ''b.wav'' ''hash-b'' ''t2''"
  shows "\<exists>v. length v = 45 \<and> create_feature_vector (parse_fingerprint sample_json) = Inr v
    \<and> add_song_to_index [r1, r2] (initialize_index [r1]) r2 =
    \<lparr> scaler = Some \<lparr> scaler_mean = v, scaler_scale = replicate 45 1 \<rparr>,
      index = Some \<lparr> index_d = 45, index_rows = [replicate 45 0] \<rparr>,
      feature_dim = Some 45,
      indexed_songs = [song_of_row r1 (parse_fingerprint sample_json),
                       song_of_row r2 (parse_fingerprint sample_json)] \<rparr>"
proof -
  obtain v where v: "length v = 45"
    "create_feature_vector (parse_fingerprint sample_json) = Inr v"
    and e: "initialize_index [r1] =
    \<lparr> scaler = Some \<lparr> scaler_mean = v, scaler_scale = replicate 45 1 \<rparr>,
      index = Some \<lparr> index_d = 45, index_rows = [replicate 45 0] \<rparr>,
      feature_dim = Some 45,
      indexed_songs = [song_of_row r1 (parse_fingerprint sample_json)] \<rparr>"
    unfolding r1_def using sample_engine[of 1 "''a.wav''" "''hash-a''" "''t1''"] by blast
  have d: "row_fingerprint_data r2 = sample_json"
    by (simp add: r2_def sample_row_def)
  show ?thesis
    unfolding e using v by (simp add: add_song_to_index_def d Let_def)
qed

lemma search_after_add:
  fixes r1 r2 :: song_row
  defines "r1 \<equiv> sample_row 1 ''a.wav'' ''hash-a'' ''t1''"
    and "r2 \<equiv> sample_row 2 ''b.wav'' ''hash-b'' ''t2''"
  shows "map res_file_path
     (search_local (add_song_to_index [r1, r2] (initialize_index [r1]) r2)
        (parse_fingerprint sample_json) 20 0) = [''a.wav'']"
proof -
  obtain v where v: "length v = 45"
    "create_feature_vector (parse_fingerprint sample_json) = Inr v"
    and e: "add_song_to_index [r1, r2] (initialize_index [r1]) r2 =
    \<lparr> scaler = Some \<lparr> scaler_mean = v, scaler_scale = replicate 45 1 \<rparr>,
      index = Some \<lparr> index_d = 45, index_rows = [replicate 45 0] \<rparr>,
      feature_dim = Some 45,
      indexed_songs = [song_of_row r1 (parse_fingerprint sample_json),
                       song_of_row r2 (parse_fingerprint sample_json)] \<rparr>"
    using add_sample_song unfolding r1_def r2_def by blast
  have t: "map (\<lambda>(xj, (m, s)). (xj - m) / s) (zip v (zip v (replicate 45 1)))
     = replicate 45 (0::real)"
    using transform_by_own_mean[of v] v(1) by simp
  have f: "faiss_search \<lparr> index_d = 45, index_rows = [replicate 45 0] \<rparr> (replicate 45 0) 2
     = Inr [(0, 0), (- FLT_MAX, - 1)]"
    by (simp add: faiss_search_def Let_def)
  have p: "\<And>x xs. py_index (x # xs) 0 = Inr (x::song)"
    by (simp add: py_index_def)
  have n: "\<not> (0 \<le> - FLT_MAX)" "\<not> (FLT_MAX \<le> 0)"
    by (simp_all add: FLT_MAX_def)
  have "search_local_body (add_song_to_index [r1, r2] (initialize_index [r1]) r2)
        (parse_fingerprint sample_json) 20 0 =
      Inr [\<lparr> res_title = ''Unknown'', res_artist = ''Unknown'', res_album = ''Unknown'',
             res_file_path = ''a.wav'', res_similarity = 0,
             res_detailed_similarity =
               calculate_detailed_similarity (parse_fingerprint sample_json)
                 (parse_fingerprint sample_json),
             res_tempo = PyNum 120, res_key = PyStr ''C major'', res_energy = PyNum 2,
             res_rank = 1 \<rparr>]"
    unfolding e
    by (simp add: search_local_body_def v scaler_transform_def t f p n
          song_of_row_def r1_def sample_row_def)
  then show ?thesis
    by (simp add: search_local_def)
qed

text \<open>
  C3.  The sample store holds \<^verbatim>\<open>a.wav\<close> and the engine was built from it; \<^verbatim>\<open>b.wav\<close>,
  with the same fingerprint, is then stored and added with \<open>add_song_to_index\<close>.  The
  song is appended to \<^verbatim>\<open>indexed_songs\<close>, but the index still holds the one row it
  had, and a search with the fingerprint of \<^verbatim>\<open>b.wav\<close> and threshold \<open>0\<close> returns
  \<^verbatim>\<open>a.wav\<close> alone.
\<close>

theorem add_song_to_index_not_searchable:
  "index (add_song_to_index
            [sample_row 1 ''a.wav'' ''hash-a'' ''t1'', sample_row 2 ''b.wav'' ''hash-b'' ''t2'']
            (initialize_index [sample_row 1 ''a.wav'' ''hash-a'' ''t1''])
            (sample_row 2 ''b.wav'' ''hash-b'' ''t2''))
     = index (initialize_index [sample_row 1 ''a.wav'' ''hash-a'' ''t1''])
   \<and> map song_file_path (indexed_songs (add_song_to_index
            [sample_row 1 ''a.wav'' ''hash-a'' ''t1'', sample_row 2 ''b.wav'' ''hash-b'' ''t2'']
            (initialize_index [sample_row 1 ''a.wav'' ''hash-a'' ''t1''])
            (sample_row 2 ''b.wav'' ''hash-b'' ''t2'')))
     = [''a.wav'', ''b.wav'']
   \<and> map res_file_path (search_local (add_song_to_index
            [sample_row 1 ''a.wav'' ''hash-a'' ''t1'', sample_row 2 ''b.wav'' ''hash-b'' ''t2'']
            (initialize_index [sample_row 1 ''a.wav'' ''hash-a'' ''t1''])
            (sample_row 2 ''b.wav'' ''hash-b'' ''t2''))
          (parse_fingerprint sample_json) 20 0)
     = [''a.wav'']"
proof -
  let ?r1 = "sample_row 1 ''a.wav'' ''hash-a'' ''t1''"
  let ?r2 = "sample_row 2 ''b.wav'' ''hash-b'' ''t2''"
  obtain v where e: "add_song_to_index [?r1, ?r2] (initialize_index [?r1]) ?r2 =
    \<lparr> scaler = Some \<lparr> scaler_mean = v, scaler_scale = replicate 45 1 \<rparr>,
      index = Some \<lparr> index_d = 45, index_rows = [replicate 45 0] \<rparr>,
      feature_dim = Some 45,
      indexed_songs = [song_of_row ?r1 (parse_fingerprint sample_json),
                       song_of_row ?r2 (parse_fingerprint sample_json)] \<rparr>"
    and e1: "initialize_index [?r1] =
    \<lparr> scaler = Some \<lparr> scaler_mean = v, scaler_scale = replicate 45 1 \<rparr>,
      index = Some \<lparr> index_d = 45, index_rows = [replicate 45 0] \<rparr>,
      feature_dim = Some 45,
      indexed_songs = [song_of_row ?r1 (parse_fingerprint sample_json)] \<rparr>"
    using add_sample_song sample_engine[of 1 "''a.wav''" "''hash-a''" "''t1''"] by force
  have i1: "index (initialize_index [?r1])
      = Some \<lparr> index_d = 45, index_rows = [replicate 45 0] \<rparr>"
    unfolding e1 by simp
  have i2: "index (add_song_to_index [?r1, ?r2] (initialize_index [?r1]) ?r2)
      = Some \<lparr> index_d = 45, index_rows = [replicate 45 0] \<rparr>"
    by (simp only: e) simp
  have a: "index (add_song_to_index [?r1, ?r2] (initialize_index [?r1]) ?r2)
      = index (initialize_index [?r1])"
    by (simp only: i1 i2)
  have b: "map song_file_path (indexed_songs
      (add_song_to_index [?r1, ?r2] (initialize_index [?r1]) ?r2)) = [''a.wav'', ''b.wav'']"
    by (simp only: e) (simp add: song_of_row_def sample_row_def)
  from a b search_after_add show ?thesis
    by (intro conjI)
qed


section \<open>Properties of ingest\<close>

















subsection \<open>The sample store\<close>











section \<open>Extraction that fails\<close>









end
